theory Spec2Isabelle
  imports Main
begin

section \<open>Strings\<close>

text \<open>
  A JavaScript string is modelled as a \<^typ>\<open>string\<close>, one \<^typ>\<open>char\<close> per code unit
  for ASCII text. The two characters the generator treats specially are the single quote
  and the backslash. A value that may be \<^verbatim>\<open>undefined\<close> (an optional property, a missing
  option) has an \<^typ>\<open>'a option\<close> type, \<^term>\<open>None\<close> standing for \<^verbatim>\<open>undefined\<close>.
\<close>

abbreviation quote :: char where
  "quote \<equiv> CHR 0x27"

abbreviation backslash :: char where
  "backslash \<equiv> CHR 0x5C"

text \<open>
  \<^verbatim>\<open>function escapePHP(str) { return str.replace(/'/g, "\\'"); }\<close>
  (\<^verbatim>\<open>src/blueprint/generator.ts\<close>, lines 45-48): every single quote is replaced by a
  backslash followed by a single quote; every other code unit is kept.
\<close>

fun escapePHP :: "string \<Rightarrow> string" where
  "escapePHP [] = []"
| "escapePHP (c # cs) =
     (if c = quote then backslash # quote # escapePHP cs else c # escapePHP cs)"

text \<open>
  Undoing the quote-escaping, in the words of the specification: each escaped quote
  (a backslash followed by a single quote) is replaced by a plain quote, scanning from
  the left, as \<^verbatim>\<open>s.replace(/\\'/g, "'")\<close> does.
\<close>

fun undo_quote_escaping :: "string \<Rightarrow> string" where
  "undo_quote_escaping (a # b # cs) =
     (if a = backslash \<and> b = quote then quote # undo_quote_escaping cs
      else a # undo_quote_escaping (b # cs))"
| "undo_quote_escaping cs = cs"

text \<open>\<^verbatim>\<open>Array.prototype.join\<close> on an array of strings.\<close>

fun join :: "string \<Rightarrow> string list \<Rightarrow> string" where
  "join sep [] = []"
| "join sep [x] = x"
| "join sep (x # y # ys) = x @ sep @ join sep (y # ys)"

text \<open>\<^verbatim>\<open>a || d\<close> on a string that may be undefined: the empty string is falsy.\<close>

definition or_string :: "string option \<Rightarrow> string \<Rightarrow> string" where
  "or_string a d = (case a of None \<Rightarrow> d | Some s \<Rightarrow> if s = [] then d else s)"

text \<open>\<^verbatim>\<open>String.prototype.endsWith\<close>.\<close>

definition endsWith :: "string \<Rightarrow> string \<Rightarrow> bool" where
  "endsWith s suffix =
     (length suffix \<le> length s \<and> drop (length s - length suffix) s = suffix)"

section \<open>The blueprint data model (\<^verbatim>\<open>src/blueprint/types.ts\<close>)\<close>

datatype json =
    JNull
  | JString string
  | JNumber int
  | JBool bool
  | JArray "json list"
  | JObject "(string \<times> json) list"

text \<open>
  The resource descriptors: \<^verbatim>\<open>resource\<close>, then the optional \<^verbatim>\<open>slug\<close>,
  \<^verbatim>\<open>url\<close> and \<^verbatim>\<open>path\<close> (a file resource has no slug).
\<close>

datatype PluginResource =
  PluginResource string "string option" "string option" "string option"

datatype ThemeResource =
  ThemeResource string "string option" "string option" "string option"

datatype FileResource =
  FileResource string "string option" "string option"

text \<open>\<^verbatim>\<open>string | FileResource\<close>, the payload of a file-write or SQL step.\<close>

datatype FileData =
    DataString string
  | DataResource FileResource

text \<open>
  \<^verbatim>\<open>BlueprintStep\<close>: one constructor per step tag, carrying the interface's
  properties in their declared order.
\<close>

datatype BlueprintStep =
    InstallPlugin "PluginResource option" "PluginResource option" "bool option"
      \<comment> \<open>\<^verbatim>\<open>pluginZipFile\<close>, \<^verbatim>\<open>pluginData\<close>, \<^verbatim>\<open>options.activate\<close>\<close>
  | ActivatePlugin string "string option"
      \<comment> \<open>\<^verbatim>\<open>pluginPath\<close>, \<^verbatim>\<open>pluginName\<close>\<close>
  | InstallTheme "ThemeResource option" "FileResource option" "bool option"
  | ActivateTheme string
  | Login "string option" "string option"
  | WriteFile string FileData
      \<comment> \<open>\<^verbatim>\<open>path\<close>, \<^verbatim>\<open>data\<close>\<close>
  | RunPHP string
      \<comment> \<open>\<^verbatim>\<open>code\<close>\<close>
  | SetSiteOptions "(string \<times> json) list"
  | ImportWxr FileResource
  | DefineWpConfigConsts "(string \<times> json) list" "string option"
  | RunSQL FileData
  | Cp string string
  | Mv string string
  | Rm string
  | Mkdir string
  | Unzip FileResource string

datatype LoginSetting =
    LoginBool bool
  | LoginCredentials "string option" "string option"

datatype PluginRef =
    PluginSlug string
  | PluginDescriptor PluginResource

datatype ThemeRef =
    ThemeSlug string
  | ThemeDescriptor ThemeResource

record PreferredVersions =
  php :: "string option"
  wp :: "string option"

record Features =
  networking :: "bool option"

text \<open>
  \<^verbatim>\<open>Blueprint\<close>; the field \<open>schema\<close> is the property \<^verbatim>\<open>$schema\<close>. The
  mapping-valued properties \<^verbatim>\<open>constants\<close> and \<^verbatim>\<open>siteOptions\<close> are maps from
  keys to values.
\<close>

record Blueprint =
  schema :: "string option"
  landingPage :: "string option"
  preferredVersions :: "PreferredVersions option"
  phpExtensionBundles :: "string list option"
  features :: "Features option"
  login :: "LoginSetting option"
  steps :: "BlueprintStep list option"
  constants :: "(string \<rightharpoonup> json) option"
  plugins :: "PluginRef list option"
  themes :: "ThemeRef list option"
  siteOptions :: "(string \<rightharpoonup> json) option"

section \<open>Products (\<^verbatim>\<open>src/blueprint/generator.ts\<close>, \<^verbatim>\<open>src/wc-public-api/types.ts\<close>)\<close>

datatype WooCommerceAttributeTerm =
  WooCommerceAttributeTerm int string string

datatype WooCommerceAttribute =
  WooCommerceAttribute int string string bool "WooCommerceAttributeTerm list"

datatype WooCommerceVariationAttribute =
  WooCommerceVariationAttribute string "string option"

datatype WooCommerceVariation =
  WooCommerceVariation int "WooCommerceVariationAttribute list"

text \<open>
  \<^verbatim>\<open>ProductImport\<close>. The interface declares \<^verbatim>\<open>name\<close> and \<^verbatim>\<open>description\<close>
  as strings, and the generator reads them as such (\<open>'n\<close> is \<^typ>\<open>string\<close>).
  \<^verbatim>\<open>transformWooCommerceProducts\<close> copies both from the remote record without a
  default, so what it returns holds \<^verbatim>\<open>undefined\<close> there when the remote record lacks
  them (\<open>'n\<close> is \<^typ>\<open>string option\<close>).
\<close>

record 'n ProductImport =
  name :: 'n
  description :: 'n
  short_description :: string
  price :: string
  regular_price :: string
  sale_price :: string
  sku :: string
  stock_status :: string
  categories :: "string list"
  images :: "string list"
  attributes :: "WooCommerceAttribute list"
  variations :: "WooCommerceVariation list"

text \<open>
  The parts of a remote product (\<^verbatim>\<open>PublicWooCommerceProduct\<close>) that the transformer
  reads. The declared type makes every property required; the code reads most of them
  defensively (\<^verbatim>\<open>?.\<close>, \<^verbatim>\<open>||\<close>) and its test passes partial records, so every
  property may be absent here. Of the price object only the three price strings are
  read, of an image only \<^verbatim>\<open>src\<close>, of a category only \<^verbatim>\<open>name\<close>. The fields carry
  the prefix \<open>remote_\<close>, since \<^verbatim>\<open>ProductImport\<close> has fields of the same names.
\<close>

datatype WooCommercePrice =
  WooCommercePrice (prices_price: "string option") (prices_regular_price: "string option")
    (prices_sale_price: "string option")

datatype WooCommerceImage =
  WooCommerceImage (image_src: "string option")

datatype WooCommerceCategory =
  WooCommerceCategory (category_name: string)

record PublicWooCommerceProduct =
  remote_name :: "string option"
  remote_description :: "string option"
  remote_short_description :: "string option"
  remote_prices :: "WooCommercePrice option"
  remote_sku :: "string option"
  remote_is_in_stock :: "bool option"
  remote_categories :: "WooCommerceCategory list option"
  remote_images :: "WooCommerceImage list option"
  remote_attributes :: "WooCommerceAttribute list option"
  remote_variations :: "WooCommerceVariation list option"

text \<open>
  \<^verbatim>\<open>transformWooCommerceProducts\<close> (\<^verbatim>\<open>src/blueprint/generator.ts\<close>, lines 712-730).
  \<^verbatim>\<open>product.prices?.price\<close> is undefined when the price object is;
  \<^verbatim>\<open>product.is_in_stock ? ... : ...\<close> takes the first branch only on \<^verbatim>\<open>true\<close>;
  an array is truthy even when empty, so \<^verbatim>\<open>|| []\<close> applies only to a missing list;
  \<^verbatim>\<open>filter(Boolean)\<close> drops the empty strings.
\<close>

definition transformProduct :: "PublicWooCommerceProduct \<Rightarrow> string option ProductImport" where
  "transformProduct product =
     \<lparr> name = remote_name product,
       description = remote_description product,
       short_description = or_string (remote_short_description product) [],
       price = or_string (Option.bind (remote_prices product) prices_price) ''0'',
       regular_price = or_string (Option.bind (remote_prices product) prices_regular_price) ''0'',
       sale_price = or_string (Option.bind (remote_prices product) prices_sale_price) [],
       sku = or_string (remote_sku product) [],
       stock_status = (if remote_is_in_stock product = Some True then ''instock'' else ''outofstock''),
       categories = (case remote_categories product of
                       None \<Rightarrow> []
                     | Some cats \<Rightarrow> map category_name cats),
       images = (case remote_images product of
                   None \<Rightarrow> []
                 | Some imgs \<Rightarrow> filter (\<lambda>src. src \<noteq> []) (map (\<lambda>img. or_string (image_src img) []) imgs)),
       attributes = (case remote_attributes product of None \<Rightarrow> [] | Some as \<Rightarrow> as),
       variations = (case remote_variations product of None \<Rightarrow> [] | Some vs \<Rightarrow> vs) \<rparr>"

definition transformWooCommerceProducts ::
    "PublicWooCommerceProduct list \<Rightarrow> string option ProductImport list" where
  "transformWooCommerceProducts products = map transformProduct products"

section \<open>The PHP texts\<close>

text \<open>
  The generator embeds several PHP programs as template literals without interpolation;
  they are copied into a step as they are. Each one is a constant here, written one
  source line per line, with the escapes of the template literal resolved
  (\<^verbatim>\<open>\\.\<close> is a backslash and a dot, \<^verbatim>\<open>\.\<close> is a dot). The one character outside
  ASCII, the emoji of the admin notice, is given by the four bytes of its UTF-8 encoding.
\<close>

text \<open>\<^verbatim>\<open>rewrite.php\<close> (\<^verbatim>\<open>src/blueprint/generator.ts\<close>, lines 306-312).\<close>

definition rewrite_php :: string where
  \<open>rewrite_php =
     ''<?php\<newline>'' @
     ''/* Use pretty permalinks */\<newline>'' @
     ''add_action( 'after_setup_theme', function() {\<newline>'' @
     ''    global $wp_rewrite;\<newline>'' @
     ''    $wp_rewrite->set_permalink_structure('/%postname%/');\<newline>'' @
     ''    $wp_rewrite->flush_rules();\<newline>'' @
     ''} );''\<close>

text \<open>\<^verbatim>\<open>debug-config.php\<close> (lines 367-406).\<close>

definition debug_config_php :: string where
  \<open>debug_config_php =
     ''<?php\<newline>'' @
     ''/**\<newline>'' @
     '' * Debug configuration for development\<newline>'' @
     '' * Using mu-plugin to ensure these are set after wp-config.php\<newline>'' @
     '' */\<newline>'' @
     ''\<newline>'' @
     ''// Only define constants if they haven't been defined already\<newline>'' @
     ''if (!defined('WP_DEBUG')) {\<newline>'' @
     ''    define('WP_DEBUG', true);\<newline>'' @
     ''}\<newline>'' @
     ''\<newline>'' @
     ''if (!defined('WP_DEBUG_LOG')) {\<newline>'' @
     ''    define('WP_DEBUG_LOG', true);\<newline>'' @
     ''}\<newline>'' @
     ''\<newline>'' @
     ''if (!defined('WP_DEBUG_DISPLAY')) {\<newline>'' @
     ''    define('WP_DEBUG_DISPLAY', false);\<newline>'' @
     ''}\<newline>'' @
     ''\<newline>'' @
     ''if (!defined('SCRIPT_DEBUG')) {\<newline>'' @
     ''    define('SCRIPT_DEBUG', true);\<newline>'' @
     ''}\<newline>'' @
     ''\<newline>'' @
     ''if (!defined('WP_ENVIRONMENT_TYPE')) {\<newline>'' @
     ''    define('WP_ENVIRONMENT_TYPE', 'development');\<newline>'' @
     ''}\<newline>'' @
     ''\<newline>'' @
     ''// Additional debug helpers\<newline>'' @
     ''if (WP_DEBUG) {\<newline>'' @
     ''    // Ensure error reporting is enabled\<newline>'' @
     ''    error_reporting(E_ALL);\<newline>'' @
     ''    ini_set('display_errors', 0);\<newline>'' @
     ''    ini_set('log_errors', 1);\<newline>'' @
     ''\<newline>'' @
     ''    // Set error log location if not already set\<newline>'' @
     ''    if (!ini_get('error_log')) {\<newline>'' @
     ''        ini_set('error_log', WP_CONTENT_DIR . '/debug.log');\<newline>'' @
     ''    }\<newline>'' @
     ''}\<newline>''\<close>

text \<open>\<^verbatim>\<open>playground-helpers.php\<close> (lines 683-705).\<close>

definition playground_helpers_php :: string where
  \<open>playground_helpers_php =
     ''<?php\<newline>'' @
     ''/**\<newline>'' @
     '' * WordPress Playground Development Helpers\<newline>'' @
     '' */\<newline>'' @
     ''\<newline>'' @
     ''// Show admin bar for all users\<newline>'' @
     ''add_filter('show_admin_bar', '__return_true');\<newline>'' @
     ''\<newline>'' @
     ''// Disable update checks to improve performance\<newline>'' @
     ''add_filter('automatic_updater_disabled', '__return_true');\<newline>'' @
     ''remove_action('init', 'wp_schedule_update_checks');\<newline>'' @
     ''\<newline>'' @
     ''// Add development notice\<newline>'' @
     ''add_action('admin_notices', function() {\<newline>'' @
     ''    echo '<div class="notice notice-info"><p>'' @ [CHR 0xF0, CHR 0x9F, CHR 0x8E, CHR 0xAE] @ '' Running in WordPress Playground with WooCommerce defaults</p></div>';\<newline>'' @
     ''});\<newline>'' @
     ''\<newline>'' @
     ''// Log all errors to debug.log\<newline>'' @
     ''if (WP_DEBUG_LOG) {\<newline>'' @
     ''    ini_set('log_errors', 1);\<newline>'' @
     ''    ini_set('error_log', WP_CONTENT_DIR . '/debug.log');\<newline>'' @
     ''}\<newline>''\<close>

text \<open>The built-in sample catalogue (lines 435-666).\<close>

definition sample_products_php :: string where
  \<open>sample_products_php =
     ''<?php\<newline>'' @
     ''// This script creates sample WooCommerce products without requiring WXR import\<newline>'' @
     ''// It runs after WooCommerce is activated and ready\<newline>'' @
     ''\<newline>'' @
     ''// Ensure WooCommerce is active\<newline>'' @
     ''if (!class_exists('WC_Product')) {\<newline>'' @
     ''    echo 'WooCommerce is not active. Skipping product creation.';\<newline>'' @
     ''    exit(0);\<newline>'' @
     ''}\<newline>'' @
     ''\<newline>'' @
     ''// Load required WordPress functions for media handling\<newline>'' @
     ''require_once(ABSPATH . 'wp-admin/includes/media.php');\<newline>'' @
     ''require_once(ABSPATH . 'wp-admin/includes/file.php');\<newline>'' @
     ''require_once(ABSPATH . 'wp-admin/includes/image.php');\<newline>'' @
     ''\<newline>'' @
     ''// Helper function to download and attach image to product\<newline>'' @
     ''function attach_product_thumbnail($image_url, $product_id, $filename = '' @ [quote, quote] @ '') {\<newline>'' @
     ''    if (empty($image_url)) {\<newline>'' @
     ''        return false;\<newline>'' @
     ''    }\<newline>'' @
     ''\<newline>'' @
     ''    // Download the image\<newline>'' @
     ''    $tmp = download_url($image_url);\<newline>'' @
     ''    if (is_wp_error($tmp)) {\<newline>'' @
     ''        return false;\<newline>'' @
     ''    }\<newline>'' @
     ''\<newline>'' @
     ''    // Set up file array\<newline>'' @
     ''    $file_array = array(\<newline>'' @
     ''        'name' => $filename ?: basename($image_url),\<newline>'' @
     ''        'tmp_name' => $tmp\<newline>'' @
     ''    );\<newline>'' @
     ''\<newline>'' @
     ''    // If filename doesn't have an extension, add one based on mime type\<newline>'' @
     ''    if (!preg_match('/.(jpg|jpeg|png|gif|webp)$/i', $file_array['name'])) {\<newline>'' @
     ''        $file_array['name'] = $file_array['name'] . '.jpg';\<newline>'' @
     ''    }\<newline>'' @
     ''\<newline>'' @
     ''    // Upload the image and attach it to the product\<newline>'' @
     ''    $attachment_id = media_handle_sideload($file_array, $product_id);\<newline>'' @
     ''\<newline>'' @
     ''    // Clean up temp file\<newline>'' @
     ''    @unlink($tmp);\<newline>'' @
     ''\<newline>'' @
     ''    if (is_wp_error($attachment_id)) {\<newline>'' @
     ''        return false;\<newline>'' @
     ''    }\<newline>'' @
     ''\<newline>'' @
     ''    // Set as product thumbnail\<newline>'' @
     ''    set_post_thumbnail($product_id, $attachment_id);\<newline>'' @
     ''\<newline>'' @
     ''    return $attachment_id;\<newline>'' @
     ''}\<newline>'' @
     ''\<newline>'' @
     ''// Sample product data\<newline>'' @
     ''$sample_products = array(\<newline>'' @
     ''    array(\<newline>'' @
     ''        'name' => 'Premium Quality T-Shirt',\<newline>'' @
     ''        'description' => 'This premium quality t-shirt is made from 100% organic cotton. Comfortable, durable, and stylish.',\<newline>'' @
     ''        'short_description' => 'Comfortable organic cotton t-shirt',\<newline>'' @
     ''        'regular_price' => '29.99',\<newline>'' @
     ''        'sale_price' => '24.99',\<newline>'' @
     ''        'sku' => 'TSHIRT-001',\<newline>'' @
     ''        'stock_status' => 'instock',\<newline>'' @
     ''        'categories' => array('Clothing', 'T-Shirts'),\<newline>'' @
     ''        'image_url' => 'https://images.unsplash.com/photo-1521572163474-6864f9cf17ab?w=800',\<newline>'' @
     ''        'image_name' => 'premium-tshirt.jpg'\<newline>'' @
     ''    ),\<newline>'' @
     ''    array(\<newline>'' @
     ''        'name' => 'Wireless Bluetooth Headphones',\<newline>'' @
     ''        'description' => 'Experience crystal-clear audio with these premium wireless Bluetooth headphones. Features noise cancellation and 30-hour battery life.',\<newline>'' @
     ''        'short_description' => 'Premium wireless headphones with noise cancellation',\<newline>'' @
     ''        'regular_price' => '149.99',\<newline>'' @
     ''        'sale_price' => '119.99',\<newline>'' @
     ''        'sku' => 'HEADPHONES-001',\<newline>'' @
     ''        'stock_status' => 'instock',\<newline>'' @
     ''        'categories' => array('Electronics', 'Audio'),\<newline>'' @
     ''        'image_url' => 'https://images.unsplash.com/photo-1505740420928-5e560c06d30e?w=800',\<newline>'' @
     ''        'image_name' => 'wireless-headphones.jpg'\<newline>'' @
     ''    ),\<newline>'' @
     ''    array(\<newline>'' @
     ''        'name' => 'Organic Coffee Beans - 1kg',\<newline>'' @
     ''        'description' => 'Premium organic coffee beans sourced from sustainable farms. Medium roast with notes of chocolate and caramel.',\<newline>'' @
     ''        'short_description' => 'Premium organic coffee beans',\<newline>'' @
     ''        'regular_price' => '34.99',\<newline>'' @
     ''        'sale_price' => '' @ [quote, quote] @ '',\<newline>'' @
     ''        'sku' => 'COFFEE-001',\<newline>'' @
     ''        'stock_status' => 'instock',\<newline>'' @
     ''        'categories' => array('Food & Beverage', 'Coffee'),\<newline>'' @
     ''        'image_url' => 'https://images.unsplash.com/photo-1559056199-641a0ac8b55e?w=800',\<newline>'' @
     ''        'image_name' => 'organic-coffee-beans.jpg'\<newline>'' @
     ''    ),\<newline>'' @
     ''    array(\<newline>'' @
     ''        'name' => 'Yoga Mat - Extra Thick',\<newline>'' @
     ''        'description' => 'Professional-grade yoga mat with extra thickness for maximum comfort. Non-slip surface and eco-friendly materials.',\<newline>'' @
     ''        'short_description' => 'Extra thick professional yoga mat',\<newline>'' @
     ''        'regular_price' => '49.99',\<newline>'' @
     ''        'sale_price' => '39.99',\<newline>'' @
     ''        'sku' => 'YOGA-MAT-001',\<newline>'' @
     ''        'stock_status' => 'instock',\<newline>'' @
     ''        'categories' => array('Sports & Fitness', 'Yoga'),\<newline>'' @
     ''        'image_url' => 'https://images.unsplash.com/photo-1601925260368-ae2f83cf8b7f?w=800',\<newline>'' @
     ''        'image_name' => 'yoga-mat.jpg'\<newline>'' @
     ''    ),\<newline>'' @
     ''    array(\<newline>'' @
     ''        'name' => 'Stainless Steel Water Bottle',\<newline>'' @
     ''        'description' => 'Keep your drinks cold for 24 hours or hot for 12 hours with this premium stainless steel water bottle.',\<newline>'' @
     ''        'short_description' => 'Insulated stainless steel water bottle',\<newline>'' @
     ''        'regular_price' => '24.99',\<newline>'' @
     ''        'sale_price' => '' @ [quote, quote] @ '',\<newline>'' @
     ''        'sku' => 'BOTTLE-001',\<newline>'' @
     ''        'stock_status' => 'instock',\<newline>'' @
     ''        'categories' => array('Home & Kitchen', 'Drinkware'),\<newline>'' @
     ''        'image_url' => 'https://images.unsplash.com/photo-1602143407151-7111542de6e8?w=800',\<newline>'' @
     ''        'image_name' => 'water-bottle.jpg'\<newline>'' @
     ''    ),\<newline>'' @
     ''    array(\<newline>'' @
     ''        'name' => 'Leather Wallet - RFID Protected',\<newline>'' @
     ''        'description' => 'Genuine leather wallet with RFID protection. Multiple card slots and bill compartments.',\<newline>'' @
     ''        'short_description' => 'RFID protected leather wallet',\<newline>'' @
     ''        'regular_price' => '59.99',\<newline>'' @
     ''        'sale_price' => '49.99',\<newline>'' @
     ''        'sku' => 'WALLET-001',\<newline>'' @
     ''        'stock_status' => 'instock',\<newline>'' @
     ''        'categories' => array('Accessories', 'Wallets'),\<newline>'' @
     ''        'image_url' => 'https://images.unsplash.com/photo-1627123424574-724758594e93?w=800',\<newline>'' @
     ''        'image_name' => 'leather-wallet.jpg'\<newline>'' @
     ''    )\<newline>'' @
     '');\<newline>'' @
     ''\<newline>'' @
     ''// Create product categories first\<newline>'' @
     ''$default_categories = array(\<newline>'' @
     ''    'Clothing' => 'Fashion and apparel',\<newline>'' @
     ''    'Electronics' => 'Electronic devices and accessories',\<newline>'' @
     ''    'Food & Beverage' => 'Food and drink products',\<newline>'' @
     ''    'Sports & Fitness' => 'Sports equipment and fitness gear',\<newline>'' @
     ''    'Home & Kitchen' => 'Home and kitchen essentials',\<newline>'' @
     ''    'Accessories' => 'Fashion and tech accessories',\<newline>'' @
     ''    'T-Shirts' => 'Comfortable t-shirts',\<newline>'' @
     ''    'Audio' => 'Audio equipment',\<newline>'' @
     ''    'Coffee' => 'Coffee products',\<newline>'' @
     ''    'Yoga' => 'Yoga equipment',\<newline>'' @
     ''    'Drinkware' => 'Bottles and cups',\<newline>'' @
     ''    'Wallets' => 'Wallets and cardholders'\<newline>'' @
     '');\<newline>'' @
     ''\<newline>'' @
     ''foreach ($default_categories as $name => $description) {\<newline>'' @
     ''    if (!term_exists($name, 'product_cat')) {\<newline>'' @
     ''        wp_insert_term($name, 'product_cat', array(\<newline>'' @
     ''            'description' => $description\<newline>'' @
     ''        ));\<newline>'' @
     ''    }\<newline>'' @
     ''}\<newline>'' @
     ''\<newline>'' @
     ''$created_count = 0;\<newline>'' @
     ''$failed_count = 0;\<newline>'' @
     ''$images_attached = 0;\<newline>'' @
     ''\<newline>'' @
     ''foreach ($sample_products as $product_data) {\<newline>'' @
     ''    try {\<newline>'' @
     ''        // Create product\<newline>'' @
     ''        $product = new WC_Product_Simple();\<newline>'' @
     ''\<newline>'' @
     ''        $product->set_name($product_data['name']);\<newline>'' @
     ''        $product->set_description($product_data['description']);\<newline>'' @
     ''        $product->set_short_description($product_data['short_description']);\<newline>'' @
     ''        $product->set_regular_price($product_data['regular_price']);\<newline>'' @
     ''\<newline>'' @
     ''        if (!empty($product_data['sale_price'])) {\<newline>'' @
     ''            $product->set_sale_price($product_data['sale_price']);\<newline>'' @
     ''        }\<newline>'' @
     ''\<newline>'' @
     ''        $product->set_sku($product_data['sku']);\<newline>'' @
     ''        $product->set_stock_status($product_data['stock_status']);\<newline>'' @
     ''        $product->set_manage_stock(false);\<newline>'' @
     ''        $product->set_status('publish');\<newline>'' @
     ''\<newline>'' @
     ''        // Set categories\<newline>'' @
     ''        $category_ids = array();\<newline>'' @
     ''        foreach ($product_data['categories'] as $category_name) {\<newline>'' @
     ''            $term = get_term_by('name', $category_name, 'product_cat');\<newline>'' @
     ''            if (!$term) {\<newline>'' @
     ''                $term_data = wp_insert_term($category_name, 'product_cat');\<newline>'' @
     ''                if (!is_wp_error($term_data)) {\<newline>'' @
     ''                    $category_ids[] = $term_data['term_id'];\<newline>'' @
     ''                }\<newline>'' @
     ''            } else {\<newline>'' @
     ''                $category_ids[] = $term->term_id;\<newline>'' @
     ''            }\<newline>'' @
     ''        }\<newline>'' @
     ''        $product->set_category_ids($category_ids);\<newline>'' @
     ''\<newline>'' @
     ''        // Save product first to get ID\<newline>'' @
     ''        $product_id = $product->save();\<newline>'' @
     ''\<newline>'' @
     ''        if ($product_id) {\<newline>'' @
     ''            $created_count++;\<newline>'' @
     ''\<newline>'' @
     ''            // Download and attach the image\<newline>'' @
     ''            if (!empty($product_data['image_url'])) {\<newline>'' @
     ''                $attachment_id = attach_product_thumbnail(\<newline>'' @
     ''                    $product_data['image_url'],\<newline>'' @
     ''                    $product_id,\<newline>'' @
     ''                    $product_data['image_name']\<newline>'' @
     ''                );\<newline>'' @
     ''\<newline>'' @
     ''                if ($attachment_id) {\<newline>'' @
     ''                    $images_attached++;\<newline>'' @
     ''\<newline>'' @
     ''                    // Also set it as the product image in WooCommerce\<newline>'' @
     ''                    $product = wc_get_product($product_id);\<newline>'' @
     ''                    $product->set_image_id($attachment_id);\<newline>'' @
     ''                    $product->save();\<newline>'' @
     ''                }\<newline>'' @
     ''            }\<newline>'' @
     ''        }\<newline>'' @
     ''\<newline>'' @
     ''    } catch (Exception $e) {\<newline>'' @
     ''        $failed_count++;\<newline>'' @
     ''        error_log('Failed to create product: ' . $e->getMessage());\<newline>'' @
     ''    }\<newline>'' @
     ''}\<newline>'' @
     ''\<newline>'' @
     ''echo "Sample product import completed. Created $created_count products with $images_attached images attached.";\<newline>'' @
     ''\<newline>'' @
     ''if ($failed_count > 0) {\<newline>'' @
     ''    echo " Failed to create $failed_count products.";\<newline>'' @
     ''}\<newline>'' @
     ''\<newline>'' @
     ''// Flush rewrite rules to ensure product permalinks work\<newline>'' @
     ''flush_rewrite_rules();\<newline>'' @
     ''?>''\<close>

text \<open>
  The import script is a template (lines 68-229): the PHP array of the products stands
  between a fixed head, which ends with the line \<^verbatim>\<open>$products_data = array(\<close>, and a
  fixed tail, which starts with the line break before \<^verbatim>\<open>);\<close>.
\<close>

definition import_script_head :: string where
  \<open>import_script_head =
     ''<?php\<newline>'' @
     ''// Ensure WordPress is loaded\<newline>'' @
     ''if (!defined('ABSPATH')) {\<newline>'' @
     ''    // Try to load WordPress - this handles different environments\<newline>'' @
     ''    if (file_exists('/wordpress/wp-load.php')) {\<newline>'' @
     ''        require_once('/wordpress/wp-load.php');\<newline>'' @
     ''    } elseif (file_exists(dirname(__FILE__) . '/../../wp-load.php')) {\<newline>'' @
     ''        require_once(dirname(__FILE__) . '/../../wp-load.php');\<newline>'' @
     ''    } elseif (file_exists(dirname(__FILE__) . '/../../../wp-load.php')) {\<newline>'' @
     ''        require_once(dirname(__FILE__) . '/../../../wp-load.php');\<newline>'' @
     ''    } else {\<newline>'' @
     ''        error_log('Could not find wp-load.php');\<newline>'' @
     ''        exit(1);\<newline>'' @
     ''    }\<newline>'' @
     ''}\<newline>'' @
     ''\<newline>'' @
     ''// Wait for WooCommerce to be fully loaded\<newline>'' @
     ''if (!class_exists('WC_Product')) {\<newline>'' @
     ''    error_log('WooCommerce is not active, skipping product import');\<newline>'' @
     ''    exit(0);\<newline>'' @
     ''}\<newline>'' @
     ''\<newline>'' @
     ''// Include WordPress media functions\<newline>'' @
     ''require_once(ABSPATH . 'wp-admin/includes/media.php');\<newline>'' @
     ''require_once(ABSPATH . 'wp-admin/includes/file.php');\<newline>'' @
     ''require_once(ABSPATH . 'wp-admin/includes/image.php');\<newline>'' @
     ''\<newline>'' @
     ''// Function to download and attach image to product\<newline>'' @
     ''function attach_product_image($image_url, $product_id, $set_as_featured = true) {\<newline>'' @
     ''    if (empty($image_url)) {\<newline>'' @
     ''        return false;\<newline>'' @
     ''    }\<newline>'' @
     ''\<newline>'' @
     ''    // Download image from URL\<newline>'' @
     ''    $tmp = download_url($image_url);\<newline>'' @
     ''\<newline>'' @
     ''    if (is_wp_error($tmp)) {\<newline>'' @
     ''        error_log('Failed to download image: ' . $tmp->get_error_message());\<newline>'' @
     ''        return false;\<newline>'' @
     ''    }\<newline>'' @
     ''\<newline>'' @
     ''    // Get the filename from the URL\<newline>'' @
     ''    $file_array = array();\<newline>'' @
     ''    $file_array['name'] = basename($image_url);\<newline>'' @
     ''    $file_array['tmp_name'] = $tmp;\<newline>'' @
     ''\<newline>'' @
     ''    // If the URL doesn't have a proper extension, try to determine it\<newline>'' @
     ''    if (!preg_match('/'' @ [backslash] @ ''.(jpg|jpeg|png|gif|webp)$/i', $file_array['name'])) {\<newline>'' @
     ''        $file_info = wp_check_filetype_and_ext($tmp, $file_array['name']);\<newline>'' @
     ''        if ($file_info['ext']) {\<newline>'' @
     ''            $file_array['name'] = 'product-image-' . $product_id . '.' . $file_info['ext'];\<newline>'' @
     ''        }\<newline>'' @
     ''    }\<newline>'' @
     ''\<newline>'' @
     ''    // Upload the image\<newline>'' @
     ''    $attachment_id = media_handle_sideload($file_array, $product_id);\<newline>'' @
     ''\<newline>'' @
     ''    // Check for errors\<newline>'' @
     ''    if (is_wp_error($attachment_id)) {\<newline>'' @
     ''        @unlink($file_array['tmp_name']);\<newline>'' @
     ''        error_log('Failed to create attachment: ' . $attachment_id->get_error_message());\<newline>'' @
     ''        return false;\<newline>'' @
     ''    }\<newline>'' @
     ''\<newline>'' @
     ''    // Set as featured image if requested\<newline>'' @
     ''    if ($set_as_featured) {\<newline>'' @
     ''        set_post_thumbnail($product_id, $attachment_id);\<newline>'' @
     ''    }\<newline>'' @
     ''\<newline>'' @
     ''    return $attachment_id;\<newline>'' @
     ''}\<newline>'' @
     ''\<newline>'' @
     ''$products_data = array(\<newline>''\<close>

definition import_script_tail :: string where
  \<open>import_script_tail =
     ''\<newline>'' @
     '');\<newline>'' @
     ''\<newline>'' @
     ''$imported_count = 0;\<newline>'' @
     ''$images_imported = 0;\<newline>'' @
     ''\<newline>'' @
     ''foreach ($products_data as $product_data) {\<newline>'' @
     ''    try {\<newline>'' @
     ''        $product = new WC_Product_Simple();\<newline>'' @
     ''\<newline>'' @
     ''        $product->set_name($product_data['name']);\<newline>'' @
     ''        $product->set_description($product_data['description']);\<newline>'' @
     ''        $product->set_short_description($product_data['short_description']);\<newline>'' @
     ''        $product->set_regular_price($product_data['regular_price']);\<newline>'' @
     ''\<newline>'' @
     ''        if (!empty($product_data['sale_price'])) {\<newline>'' @
     ''            $product->set_sale_price($product_data['sale_price']);\<newline>'' @
     ''        }\<newline>'' @
     ''\<newline>'' @
     ''        if (!empty($product_data['sku'])) {\<newline>'' @
     ''            $product->set_sku($product_data['sku']);\<newline>'' @
     ''        }\<newline>'' @
     ''\<newline>'' @
     ''        $product->set_stock_status($product_data['stock_status']);\<newline>'' @
     ''\<newline>'' @
     ''        // Set categories\<newline>'' @
     ''        if (!empty($product_data['categories'])) {\<newline>'' @
     ''            $category_ids = array();\<newline>'' @
     ''            foreach ($product_data['categories'] as $category_name) {\<newline>'' @
     ''                $term = get_term_by('name', $category_name, 'product_cat');\<newline>'' @
     ''                if (!$term) {\<newline>'' @
     ''                    $term = wp_insert_term($category_name, 'product_cat');\<newline>'' @
     ''                    if (!is_wp_error($term)) {\<newline>'' @
     ''                        $category_ids[] = $term['term_id'];\<newline>'' @
     ''                    }\<newline>'' @
     ''                } else {\<newline>'' @
     ''                    $category_ids[] = $term->term_id;\<newline>'' @
     ''                }\<newline>'' @
     ''            }\<newline>'' @
     ''            $product->set_category_ids($category_ids);\<newline>'' @
     ''        }\<newline>'' @
     ''\<newline>'' @
     ''        // Save the product first to get the ID\<newline>'' @
     ''        $product_id = $product->save();\<newline>'' @
     ''        if ($product_id) {\<newline>'' @
     ''            $imported_count++;\<newline>'' @
     ''\<newline>'' @
     ''            // Import images\<newline>'' @
     ''            if (!empty($product_data['images'])) {\<newline>'' @
     ''                $gallery_ids = array();\<newline>'' @
     ''                $is_first = true;\<newline>'' @
     ''\<newline>'' @
     ''                foreach ($product_data['images'] as $image_url) {\<newline>'' @
     ''                    if (empty($image_url)) continue;\<newline>'' @
     ''\<newline>'' @
     ''                    // Set first image as featured, others as gallery\<newline>'' @
     ''                    $attachment_id = attach_product_image($image_url, $product_id, $is_first);\<newline>'' @
     ''\<newline>'' @
     ''                    if ($attachment_id && !$is_first) {\<newline>'' @
     ''                        $gallery_ids[] = $attachment_id;\<newline>'' @
     ''                    }\<newline>'' @
     ''\<newline>'' @
     ''                    if ($attachment_id) {\<newline>'' @
     ''                        $images_imported++;\<newline>'' @
     ''                    }\<newline>'' @
     ''\<newline>'' @
     ''                    $is_first = false;\<newline>'' @
     ''\<newline>'' @
     ''                    // Limit to 5 images per product to avoid timeout\<newline>'' @
     ''                    if (count($gallery_ids) >= 4) {\<newline>'' @
     ''                        break;\<newline>'' @
     ''                    }\<newline>'' @
     ''                }\<newline>'' @
     ''\<newline>'' @
     ''                // Set gallery images\<newline>'' @
     ''                if (!empty($gallery_ids)) {\<newline>'' @
     ''                    $product = wc_get_product($product_id);\<newline>'' @
     ''                    $product->set_gallery_image_ids($gallery_ids);\<newline>'' @
     ''                    $product->save();\<newline>'' @
     ''                }\<newline>'' @
     ''            }\<newline>'' @
     ''        }\<newline>'' @
     ''    } catch (Exception $e) {\<newline>'' @
     ''        error_log('Failed to import product: ' . $e->getMessage());\<newline>'' @
     ''    }\<newline>'' @
     ''}\<newline>'' @
     ''\<newline>'' @
     ''echo "Successfully imported $imported_count products with $images_imported images!";\<newline>'' @
     ''?>''\<close>

text \<open>
  The literals of \<^verbatim>\<open>src/unnamed/part_002\<close> that differ: the core-readiness check
  (lines 289-322), the table check (lines 467-496), the sample catalogue (lines 520-763)
  and the import script (lines 68-256). Its \<^verbatim>\<open>rewrite.php\<close>, \<^verbatim>\<open>debug-config.php\<close>
  and \<^verbatim>\<open>playground-helpers.php\<close> are the texts above.
\<close>

definition core_check_php :: string where
  \<open>core_check_php =
     ''<?php\<newline>'' @
     ''// This ensures WordPress core is fully loaded before we proceed\<newline>'' @
     ''// with plugin installations and activations\<newline>'' @
     ''\<newline>'' @
     ''// Load WordPress if not already loaded\<newline>'' @
     ''if (!defined('ABSPATH')) {\<newline>'' @
     ''    if (file_exists('/wordpress/wp-load.php')) {\<newline>'' @
     ''        require_once '/wordpress/wp-load.php';\<newline>'' @
     ''    } else {\<newline>'' @
     ''        echo "WordPress not found at expected location.";\<newline>'' @
     ''        exit(1);\<newline>'' @
     ''    }\<newline>'' @
     ''}\<newline>'' @
     ''\<newline>'' @
     ''// Verify database connection\<newline>'' @
     ''global $wpdb;\<newline>'' @
     ''if (!$wpdb->check_connection()) {\<newline>'' @
     ''    echo "Database connection failed.";\<newline>'' @
     ''    exit(1);\<newline>'' @
     ''}\<newline>'' @
     ''\<newline>'' @
     ''// Ensure basic WordPress tables exist\<newline>'' @
     ''$required_tables = ['posts', 'users', 'options', 'terms', 'term_taxonomy', 'term_relationships'];\<newline>'' @
     ''foreach ($required_tables as $table) {\<newline>'' @
     ''    $table_name = $wpdb->prefix . $table;\<newline>'' @
     ''    $result = $wpdb->get_var("SHOW TABLES LIKE '$table_name'");\<newline>'' @
     ''    if (!$result) {\<newline>'' @
     ''        echo "Required table $table_name is missing.";\<newline>'' @
     ''        exit(1);\<newline>'' @
     ''    }\<newline>'' @
     ''}\<newline>'' @
     ''\<newline>'' @
     ''echo "WordPress core initialized and database verified.";\<newline>'' @
     ''?>''\<close>

definition wc_tables_php :: string where
  \<open>wc_tables_php =
     ''<?php\<newline>'' @
     ''// Ensure WooCommerce database tables are created\<newline>'' @
     ''require_once '/wordpress/wp-load.php';\<newline>'' @
     ''\<newline>'' @
     ''// Check if WooCommerce is active\<newline>'' @
     ''if (!class_exists('WooCommerce')) {\<newline>'' @
     ''    echo 'WooCommerce not found, skipping table creation.';\<newline>'' @
     ''    exit(0);\<newline>'' @
     ''}\<newline>'' @
     ''\<newline>'' @
     ''// Get WooCommerce instance\<newline>'' @
     ''$woocommerce = WC();\<newline>'' @
     ''\<newline>'' @
     ''// Install WooCommerce tables if needed\<newline>'' @
     ''if (class_exists('WC_Install')) {\<newline>'' @
     ''    WC_Install::check_version();\<newline>'' @
     ''    WC_Install::install();\<newline>'' @
     ''    echo 'WooCommerce tables checked/created.';\<newline>'' @
     ''}\<newline>'' @
     ''\<newline>'' @
     ''// Ensure product taxonomies are registered\<newline>'' @
     ''if (function_exists('wc_register_default_taxonomies')) {\<newline>'' @
     ''    wc_register_default_taxonomies();\<newline>'' @
     ''    echo ' Taxonomies registered.';\<newline>'' @
     ''}\<newline>'' @
     ''\<newline>'' @
     ''// Flush rewrite rules\<newline>'' @
     ''flush_rewrite_rules();\<newline>'' @
     ''echo ' Ready for products.';\<newline>'' @
     ''?>''\<close>

definition sample_products_php_part_002 :: string where
  \<open>sample_products_php_part_002 =
     ''<?php\<newline>'' @
     ''// This script creates sample WooCommerce products without requiring WXR import\<newline>'' @
     ''// It runs after WooCommerce is activated and ready\<newline>'' @
     ''\<newline>'' @
     ''// Load WordPress\<newline>'' @
     ''require_once '/wordpress/wp-load.php';\<newline>'' @
     ''\<newline>'' @
     ''// Wait for WooCommerce to be fully loaded\<newline>'' @
     ''if (!class_exists('WC_Product')) {\<newline>'' @
     ''    // Try to load WooCommerce manually if not already loaded\<newline>'' @
     ''    $wc_plugin_file = '/wordpress/wp-content/plugins/woocommerce/woocommerce.php';\<newline>'' @
     ''    if (file_exists($wc_plugin_file)) {\<newline>'' @
     ''        require_once $wc_plugin_file;\<newline>'' @
     ''    }\<newline>'' @
     ''}\<newline>'' @
     ''\<newline>'' @
     ''// Double-check WooCommerce is active\<newline>'' @
     ''if (!class_exists('WC_Product')) {\<newline>'' @
     ''    echo 'WooCommerce is not active. Skipping product creation.';\<newline>'' @
     ''    exit(0);\<newline>'' @
     ''}\<newline>'' @
     ''\<newline>'' @
     ''// Load required WordPress functions for media handling\<newline>'' @
     ''require_once(ABSPATH . 'wp-admin/includes/media.php');\<newline>'' @
     ''require_once(ABSPATH . 'wp-admin/includes/file.php');\<newline>'' @
     ''require_once(ABSPATH . 'wp-admin/includes/image.php');\<newline>'' @
     ''\<newline>'' @
     ''// Helper function to download and attach image to product\<newline>'' @
     ''function attach_product_thumbnail($image_url, $product_id, $filename = '' @ [quote, quote] @ '') {\<newline>'' @
     ''    if (empty($image_url)) {\<newline>'' @
     ''        return false;\<newline>'' @
     ''    }\<newline>'' @
     ''\<newline>'' @
     ''    // Download the image\<newline>'' @
     ''    $tmp = download_url($image_url);\<newline>'' @
     ''    if (is_wp_error($tmp)) {\<newline>'' @
     ''        return false;\<newline>'' @
     ''    }\<newline>'' @
     ''\<newline>'' @
     ''    // Set up file array\<newline>'' @
     ''    $file_array = array(\<newline>'' @
     ''        'name' => $filename ?: basename($image_url),\<newline>'' @
     ''        'tmp_name' => $tmp\<newline>'' @
     ''    );\<newline>'' @
     ''\<newline>'' @
     ''    // If filename doesn't have an extension, add one based on mime type\<newline>'' @
     ''    if (!preg_match('/.(jpg|jpeg|png|gif|webp)$/i', $file_array['name'])) {\<newline>'' @
     ''        $file_array['name'] = $file_array['name'] . '.jpg';\<newline>'' @
     ''    }\<newline>'' @
     ''\<newline>'' @
     ''    // Upload the image and attach it to the product\<newline>'' @
     ''    $attachment_id = media_handle_sideload($file_array, $product_id);\<newline>'' @
     ''\<newline>'' @
     ''    // Clean up temp file\<newline>'' @
     ''    @unlink($tmp);\<newline>'' @
     ''\<newline>'' @
     ''    if (is_wp_error($attachment_id)) {\<newline>'' @
     ''        return false;\<newline>'' @
     ''    }\<newline>'' @
     ''\<newline>'' @
     ''    // Set as product thumbnail\<newline>'' @
     ''    set_post_thumbnail($product_id, $attachment_id);\<newline>'' @
     ''\<newline>'' @
     ''    return $attachment_id;\<newline>'' @
     ''}\<newline>'' @
     ''\<newline>'' @
     ''// Sample product data\<newline>'' @
     ''$sample_products = array(\<newline>'' @
     ''    array(\<newline>'' @
     ''        'name' => 'Premium Quality T-Shirt',\<newline>'' @
     ''        'description' => 'This premium quality t-shirt is made from 100% organic cotton. Comfortable, durable, and stylish.',\<newline>'' @
     ''        'short_description' => 'Comfortable organic cotton t-shirt',\<newline>'' @
     ''        'regular_price' => '29.99',\<newline>'' @
     ''        'sale_price' => '24.99',\<newline>'' @
     ''        'sku' => 'TSHIRT-001',\<newline>'' @
     ''        'stock_status' => 'instock',\<newline>'' @
     ''        'categories' => array('Clothing', 'T-Shirts'),\<newline>'' @
     ''        'image_url' => 'https://via.placeholder.com/800x800/4A90E2/FFFFFF?text=T-Shirt',\<newline>'' @
     ''        'image_name' => 'premium-tshirt.jpg'\<newline>'' @
     ''    ),\<newline>'' @
     ''    array(\<newline>'' @
     ''        'name' => 'Wireless Bluetooth Headphones',\<newline>'' @
     ''        'description' => 'Experience crystal-clear audio with these premium wireless Bluetooth headphones. Features noise cancellation and 30-hour battery life.',\<newline>'' @
     ''        'short_description' => 'Premium wireless headphones with noise cancellation',\<newline>'' @
     ''        'regular_price' => '149.99',\<newline>'' @
     ''        'sale_price' => '119.99',\<newline>'' @
     ''        'sku' => 'HEADPHONES-001',\<newline>'' @
     ''        'stock_status' => 'instock',\<newline>'' @
     ''        'categories' => array('Electronics', 'Audio'),\<newline>'' @
     ''        'image_url' => 'https://via.placeholder.com/800x800/E24A4A/FFFFFF?text=Headphones',\<newline>'' @
     ''        'image_name' => 'wireless-headphones.jpg'\<newline>'' @
     ''    ),\<newline>'' @
     ''    array(\<newline>'' @
     ''        'name' => 'Organic Coffee Beans - 1kg',\<newline>'' @
     ''        'description' => 'Premium organic coffee beans sourced from sustainable farms. Medium roast with notes of chocolate and caramel.',\<newline>'' @
     ''        'short_description' => 'Premium organic coffee beans',\<newline>'' @
     ''        'regular_price' => '34.99',\<newline>'' @
     ''        'sale_price' => '' @ [quote, quote] @ '',\<newline>'' @
     ''        'sku' => 'COFFEE-001',\<newline>'' @
     ''        'stock_status' => 'instock',\<newline>'' @
     ''        'categories' => array('Food & Beverage', 'Coffee'),\<newline>'' @
     ''        'image_url' => 'https://via.placeholder.com/800x800/8B4513/FFFFFF?text=Coffee',\<newline>'' @
     ''        'image_name' => 'organic-coffee-beans.jpg'\<newline>'' @
     ''    ),\<newline>'' @
     ''    array(\<newline>'' @
     ''        'name' => 'Yoga Mat - Extra Thick',\<newline>'' @
     ''        'description' => 'Professional-grade yoga mat with extra thickness for maximum comfort. Non-slip surface and eco-friendly materials.',\<newline>'' @
     ''        'short_description' => 'Extra thick professional yoga mat',\<newline>'' @
     ''        'regular_price' => '49.99',\<newline>'' @
     ''        'sale_price' => '39.99',\<newline>'' @
     ''        'sku' => 'YOGA-MAT-001',\<newline>'' @
     ''        'stock_status' => 'instock',\<newline>'' @
     ''        'categories' => array('Sports & Fitness', 'Yoga'),\<newline>'' @
     ''        'image_url' => 'https://via.placeholder.com/800x800/4AE290/FFFFFF?text=Yoga+Mat',\<newline>'' @
     ''        'image_name' => 'yoga-mat.jpg'\<newline>'' @
     ''    ),\<newline>'' @
     ''    array(\<newline>'' @
     ''        'name' => 'Stainless Steel Water Bottle',\<newline>'' @
     ''        'description' => 'Keep your drinks cold for 24 hours or hot for 12 hours with this premium stainless steel water bottle.',\<newline>'' @
     ''        'short_description' => 'Insulated stainless steel water bottle',\<newline>'' @
     ''        'regular_price' => '24.99',\<newline>'' @
     ''        'sale_price' => '' @ [quote, quote] @ '',\<newline>'' @
     ''        'sku' => 'BOTTLE-001',\<newline>'' @
     ''        'stock_status' => 'instock',\<newline>'' @
     ''        'categories' => array('Home & Kitchen', 'Drinkware'),\<newline>'' @
     ''        'image_url' => 'https://via.placeholder.com/800x800/4AC7E2/FFFFFF?text=Water+Bottle',\<newline>'' @
     ''        'image_name' => 'water-bottle.jpg'\<newline>'' @
     ''    ),\<newline>'' @
     ''    array(\<newline>'' @
     ''        'name' => 'Leather Wallet - RFID Protected',\<newline>'' @
     ''        'description' => 'Genuine leather wallet with RFID protection. Multiple card slots and bill compartments.',\<newline>'' @
     ''        'short_description' => 'RFID protected leather wallet',\<newline>'' @
     ''        'regular_price' => '59.99',\<newline>'' @
     ''        'sale_price' => '49.99',\<newline>'' @
     ''        'sku' => 'WALLET-001',\<newline>'' @
     ''        'stock_status' => 'instock',\<newline>'' @
     ''        'categories' => array('Accessories', 'Wallets'),\<newline>'' @
     ''        'image_url' => 'https://via.placeholder.com/800x800/8B6914/FFFFFF?text=Wallet',\<newline>'' @
     ''        'image_name' => 'leather-wallet.jpg'\<newline>'' @
     ''    )\<newline>'' @
     '');\<newline>'' @
     ''\<newline>'' @
     ''// Create product categories first\<newline>'' @
     ''$default_categories = array(\<newline>'' @
     ''    'Clothing' => 'Fashion and apparel',\<newline>'' @
     ''    'Electronics' => 'Electronic devices and accessories',\<newline>'' @
     ''    'Food & Beverage' => 'Food and drink products',\<newline>'' @
     ''    'Sports & Fitness' => 'Sports equipment and fitness gear',\<newline>'' @
     ''    'Home & Kitchen' => 'Home and kitchen essentials',\<newline>'' @
     ''    'Accessories' => 'Fashion and tech accessories',\<newline>'' @
     ''    'T-Shirts' => 'Comfortable t-shirts',\<newline>'' @
     ''    'Audio' => 'Audio equipment',\<newline>'' @
     ''    'Coffee' => 'Coffee products',\<newline>'' @
     ''    'Yoga' => 'Yoga equipment',\<newline>'' @
     ''    'Drinkware' => 'Bottles and cups',\<newline>'' @
     ''    'Wallets' => 'Wallets and cardholders'\<newline>'' @
     '');\<newline>'' @
     ''\<newline>'' @
     ''foreach ($default_categories as $name => $description) {\<newline>'' @
     ''    if (!term_exists($name, 'product_cat')) {\<newline>'' @
     ''        wp_insert_term($name, 'product_cat', array(\<newline>'' @
     ''            'description' => $description\<newline>'' @
     ''        ));\<newline>'' @
     ''    }\<newline>'' @
     ''}\<newline>'' @
     ''\<newline>'' @
     ''$created_count = 0;\<newline>'' @
     ''$failed_count = 0;\<newline>'' @
     ''$images_attached = 0;\<newline>'' @
     ''\<newline>'' @
     ''foreach ($sample_products as $product_data) {\<newline>'' @
     ''    try {\<newline>'' @
     ''        // Create product\<newline>'' @
     ''        $product = new WC_Product_Simple();\<newline>'' @
     ''\<newline>'' @
     ''        $product->set_name($product_data['name']);\<newline>'' @
     ''        $product->set_description($product_data['description']);\<newline>'' @
     ''        $product->set_short_description($product_data['short_description']);\<newline>'' @
     ''        $product->set_regular_price($product_data['regular_price']);\<newline>'' @
     ''\<newline>'' @
     ''        if (!empty($product_data['sale_price'])) {\<newline>'' @
     ''            $product->set_sale_price($product_data['sale_price']);\<newline>'' @
     ''        }\<newline>'' @
     ''\<newline>'' @
     ''        $product->set_sku($product_data['sku']);\<newline>'' @
     ''        $product->set_stock_status($product_data['stock_status']);\<newline>'' @
     ''        $product->set_manage_stock(false);\<newline>'' @
     ''        $product->set_status('publish');\<newline>'' @
     ''\<newline>'' @
     ''        // Set categories\<newline>'' @
     ''        $category_ids = array();\<newline>'' @
     ''        foreach ($product_data['categories'] as $category_name) {\<newline>'' @
     ''            $term = get_term_by('name', $category_name, 'product_cat');\<newline>'' @
     ''            if (!$term) {\<newline>'' @
     ''                $term_data = wp_insert_term($category_name, 'product_cat');\<newline>'' @
     ''                if (!is_wp_error($term_data)) {\<newline>'' @
     ''                    $category_ids[] = $term_data['term_id'];\<newline>'' @
     ''                }\<newline>'' @
     ''            } else {\<newline>'' @
     ''                $category_ids[] = $term->term_id;\<newline>'' @
     ''            }\<newline>'' @
     ''        }\<newline>'' @
     ''        $product->set_category_ids($category_ids);\<newline>'' @
     ''\<newline>'' @
     ''        // Save product first to get ID\<newline>'' @
     ''        $product_id = $product->save();\<newline>'' @
     ''\<newline>'' @
     ''        if ($product_id) {\<newline>'' @
     ''            $created_count++;\<newline>'' @
     ''\<newline>'' @
     ''            // Download and attach the image\<newline>'' @
     ''            if (!empty($product_data['image_url'])) {\<newline>'' @
     ''                $attachment_id = attach_product_thumbnail(\<newline>'' @
     ''                    $product_data['image_url'],\<newline>'' @
     ''                    $product_id,\<newline>'' @
     ''                    $product_data['image_name']\<newline>'' @
     ''                );\<newline>'' @
     ''\<newline>'' @
     ''                if ($attachment_id) {\<newline>'' @
     ''                    $images_attached++;\<newline>'' @
     ''\<newline>'' @
     ''                    // Also set it as the product image in WooCommerce\<newline>'' @
     ''                    $product = wc_get_product($product_id);\<newline>'' @
     ''                    $product->set_image_id($attachment_id);\<newline>'' @
     ''                    $product->save();\<newline>'' @
     ''                }\<newline>'' @
     ''            }\<newline>'' @
     ''        }\<newline>'' @
     ''\<newline>'' @
     ''    } catch (Exception $e) {\<newline>'' @
     ''        $failed_count++;\<newline>'' @
     ''        error_log('Failed to create product: ' . $e->getMessage());\<newline>'' @
     ''    }\<newline>'' @
     ''}\<newline>'' @
     ''\<newline>'' @
     ''echo "Sample product import completed. Created $created_count products with $images_attached images attached.";\<newline>'' @
     ''\<newline>'' @
     ''if ($failed_count > 0) {\<newline>'' @
     ''    echo " Failed to create $failed_count products.";\<newline>'' @
     ''}\<newline>'' @
     ''\<newline>'' @
     ''// Flush rewrite rules to ensure product permalinks work\<newline>'' @
     ''flush_rewrite_rules();\<newline>'' @
     ''?>''\<close>

definition import_script_head_part_002 :: string where
  \<open>import_script_head_part_002 =
     ''<?php\<newline>'' @
     ''// Ensure WordPress is loaded\<newline>'' @
     ''if (!defined('ABSPATH')) {\<newline>'' @
     ''    // Try to load WordPress - this handles different environments\<newline>'' @
     ''    if (file_exists('/wordpress/wp-load.php')) {\<newline>'' @
     ''        require_once('/wordpress/wp-load.php');\<newline>'' @
     ''    } elseif (file_exists(dirname(__FILE__) . '/../../wp-load.php')) {\<newline>'' @
     ''        require_once(dirname(__FILE__) . '/../../wp-load.php');\<newline>'' @
     ''    } elseif (file_exists(dirname(__FILE__) . '/../../../wp-load.php')) {\<newline>'' @
     ''        require_once(dirname(__FILE__) . '/../../../wp-load.php');\<newline>'' @
     ''    } else {\<newline>'' @
     ''        error_log('Could not find wp-load.php');\<newline>'' @
     ''        exit(1);\<newline>'' @
     ''    }\<newline>'' @
     ''}\<newline>'' @
     ''\<newline>'' @
     ''// Wait for WooCommerce to be fully loaded\<newline>'' @
     ''if (!class_exists('WC_Product')) {\<newline>'' @
     ''    error_log('WooCommerce is not active, skipping product import');\<newline>'' @
     ''    exit(0);\<newline>'' @
     ''}\<newline>'' @
     ''\<newline>'' @
     ''// Include WordPress media functions\<newline>'' @
     ''require_once(ABSPATH . 'wp-admin/includes/media.php');\<newline>'' @
     ''require_once(ABSPATH . 'wp-admin/includes/file.php');\<newline>'' @
     ''require_once(ABSPATH . 'wp-admin/includes/image.php');\<newline>'' @
     ''\<newline>'' @
     ''// Helper function to download and attach image to product\<newline>'' @
     ''function attach_product_thumbnail($image_url, $product_id, $filename = '' @ [quote, quote] @ '') {\<newline>'' @
     ''    if (empty($image_url)) {\<newline>'' @
     ''        return false;\<newline>'' @
     ''    }\<newline>'' @
     ''\<newline>'' @
     ''    // Try to download the image\<newline>'' @
     ''    $tmp = download_url($image_url);\<newline>'' @
     ''\<newline>'' @
     ''    // If download_url fails, try using curl as fallback\<newline>'' @
     ''    if (is_wp_error($tmp)) {\<newline>'' @
     ''        error_log('download_url failed for ' . $image_url . ': ' . $tmp->get_error_message());\<newline>'' @
     ''\<newline>'' @
     ''        // Try curl as fallback\<newline>'' @
     ''        if (function_exists('curl_init')) {\<newline>'' @
     ''            $tmp_file = wp_tempnam($filename);\<newline>'' @
     ''            $ch = curl_init($image_url);\<newline>'' @
     ''            $fp = fopen($tmp_file, 'wb');\<newline>'' @
     ''\<newline>'' @
     ''            curl_setopt($ch, CURLOPT_FILE, $fp);\<newline>'' @
     ''            curl_setopt($ch, CURLOPT_HEADER, 0);\<newline>'' @
     ''            curl_setopt($ch, CURLOPT_FOLLOWLOCATION, true);\<newline>'' @
     ''            curl_setopt($ch, CURLOPT_SSL_VERIFYPEER, false);\<newline>'' @
     ''            curl_setopt($ch, CURLOPT_SSL_VERIFYHOST, false);\<newline>'' @
     ''            curl_setopt($ch, CURLOPT_TIMEOUT, 60);\<newline>'' @
     ''\<newline>'' @
     ''            $result = curl_exec($ch);\<newline>'' @
     ''            $http_code = curl_getinfo($ch, CURLINFO_HTTP_CODE);\<newline>'' @
     ''            curl_close($ch);\<newline>'' @
     ''            fclose($fp);\<newline>'' @
     ''\<newline>'' @
     ''            if ($result === false || $http_code !== 200) {\<newline>'' @
     ''                @unlink($tmp_file);\<newline>'' @
     ''                error_log('Curl download failed for ' . $image_url);\<newline>'' @
     ''                return false;\<newline>'' @
     ''            }\<newline>'' @
     ''\<newline>'' @
     ''            $tmp = $tmp_file;\<newline>'' @
     ''        } else {\<newline>'' @
     ''            error_log('No curl available, skipping image download');\<newline>'' @
     ''            return false;\<newline>'' @
     ''        }\<newline>'' @
     ''    }\<newline>'' @
     ''\<newline>'' @
     ''    // Set up file array\<newline>'' @
     ''    $file_array = array(\<newline>'' @
     ''        'name' => $filename ?: basename($image_url),\<newline>'' @
     ''        'tmp_name' => $tmp\<newline>'' @
     ''    );\<newline>'' @
     ''\<newline>'' @
     ''    // If filename doesn't have an extension, add one based on mime type\<newline>'' @
     ''    if (!preg_match('/.(jpg|jpeg|png|gif|webp)$/i', $file_array['name'])) {\<newline>'' @
     ''        $file_array['name'] = $file_array['name'] . '.jpg';\<newline>'' @
     ''    }\<newline>'' @
     ''\<newline>'' @
     ''    // Upload the image and attach it to the product\<newline>'' @
     ''    $attachment_id = media_handle_sideload($file_array, $product_id);\<newline>'' @
     ''\<newline>'' @
     ''    // Clean up temp file\<newline>'' @
     ''    @unlink($tmp);\<newline>'' @
     ''\<newline>'' @
     ''    if (is_wp_error($attachment_id)) {\<newline>'' @
     ''        error_log('Failed to create attachment: ' . $attachment_id->get_error_message());\<newline>'' @
     ''        return false;\<newline>'' @
     ''    }\<newline>'' @
     ''\<newline>'' @
     ''    // Set as product thumbnail\<newline>'' @
     ''    set_post_thumbnail($product_id, $attachment_id);\<newline>'' @
     ''\<newline>'' @
     ''    return $attachment_id;\<newline>'' @
     ''}\<newline>'' @
     ''\<newline>'' @
     ''$products_data = array(\<newline>''\<close>

definition import_script_tail_part_002 :: string where
  \<open>import_script_tail_part_002 =
     ''\<newline>'' @
     '');\<newline>'' @
     ''\<newline>'' @
     ''$imported_count = 0;\<newline>'' @
     ''$images_imported = 0;\<newline>'' @
     ''\<newline>'' @
     ''foreach ($products_data as $product_data) {\<newline>'' @
     ''    try {\<newline>'' @
     ''        $product = new WC_Product_Simple();\<newline>'' @
     ''\<newline>'' @
     ''        $product->set_name($product_data['name']);\<newline>'' @
     ''        $product->set_description($product_data['description']);\<newline>'' @
     ''        $product->set_short_description($product_data['short_description']);\<newline>'' @
     ''        $product->set_regular_price($product_data['regular_price']);\<newline>'' @
     ''\<newline>'' @
     ''        if (!empty($product_data['sale_price'])) {\<newline>'' @
     ''            $product->set_sale_price($product_data['sale_price']);\<newline>'' @
     ''        }\<newline>'' @
     ''\<newline>'' @
     ''        if (!empty($product_data['sku'])) {\<newline>'' @
     ''            $product->set_sku($product_data['sku']);\<newline>'' @
     ''        }\<newline>'' @
     ''\<newline>'' @
     ''        $product->set_stock_status($product_data['stock_status']);\<newline>'' @
     ''\<newline>'' @
     ''        // Set categories\<newline>'' @
     ''        if (!empty($product_data['categories'])) {\<newline>'' @
     ''            $category_ids = array();\<newline>'' @
     ''            foreach ($product_data['categories'] as $category_name) {\<newline>'' @
     ''                $term = get_term_by('name', $category_name, 'product_cat');\<newline>'' @
     ''                if (!$term) {\<newline>'' @
     ''                    $term = wp_insert_term($category_name, 'product_cat');\<newline>'' @
     ''                    if (!is_wp_error($term)) {\<newline>'' @
     ''                        $category_ids[] = $term['term_id'];\<newline>'' @
     ''                    }\<newline>'' @
     ''                } else {\<newline>'' @
     ''                    $category_ids[] = $term->term_id;\<newline>'' @
     ''                }\<newline>'' @
     ''            }\<newline>'' @
     ''            $product->set_category_ids($category_ids);\<newline>'' @
     ''        }\<newline>'' @
     ''\<newline>'' @
     ''        // Save the product first to get the ID\<newline>'' @
     ''        $product_id = $product->save();\<newline>'' @
     ''        if ($product_id) {\<newline>'' @
     ''            $imported_count++;\<newline>'' @
     ''\<newline>'' @
     ''            // Import images\<newline>'' @
     ''            if (!empty($product_data['images'])) {\<newline>'' @
     ''                $gallery_ids = array();\<newline>'' @
     ''                $is_first = true;\<newline>'' @
     ''\<newline>'' @
     ''                foreach ($product_data['images'] as $image_url) {\<newline>'' @
     ''                    if (empty($image_url)) continue;\<newline>'' @
     ''\<newline>'' @
     ''                    // Set first image as featured, others as gallery\<newline>'' @
     ''                    $attachment_id = attach_product_thumbnail($image_url, $product_id, $is_first ? 'product-featured.jpg' : 'product-gallery.jpg');\<newline>'' @
     ''\<newline>'' @
     ''                    if ($attachment_id && !$is_first) {\<newline>'' @
     ''                        $gallery_ids[] = $attachment_id;\<newline>'' @
     ''                    }\<newline>'' @
     ''\<newline>'' @
     ''                    if ($attachment_id) {\<newline>'' @
     ''                        $images_imported++;\<newline>'' @
     ''                    }\<newline>'' @
     ''\<newline>'' @
     ''                    $is_first = false;\<newline>'' @
     ''\<newline>'' @
     ''                    // Limit to 5 images per product to avoid timeout\<newline>'' @
     ''                    if (count($gallery_ids) >= 4) {\<newline>'' @
     ''                        break;\<newline>'' @
     ''                    }\<newline>'' @
     ''                }\<newline>'' @
     ''\<newline>'' @
     ''                // Set gallery images\<newline>'' @
     ''                if (!empty($gallery_ids)) {\<newline>'' @
     ''                    $product = wc_get_product($product_id);\<newline>'' @
     ''                    $product->set_gallery_image_ids($gallery_ids);\<newline>'' @
     ''                    $product->save();\<newline>'' @
     ''                }\<newline>'' @
     ''            }\<newline>'' @
     ''        }\<newline>'' @
     ''    } catch (Exception $e) {\<newline>'' @
     ''        error_log('Failed to import product: ' . $e->getMessage());\<newline>'' @
     ''    }\<newline>'' @
     ''}\<newline>'' @
     ''\<newline>'' @
     ''echo "Successfully imported $imported_count products with $images_imported images!";\<newline>'' @
     ''?>''\<close>

section \<open>The import script (\<^verbatim>\<open>generateProductImportScript\<close>)\<close>

text \<open>\<^verbatim>\<open>'${escapePHP(s)}'\<close>: the escaped text between single quotes.\<close>

definition php_quoted :: "string \<Rightarrow> string" where
  "php_quoted s = [quote] @ escapePHP s @ [quote]"

text \<open>
  At run time nothing keeps \<^verbatim>\<open>undefined\<close> from reaching \<^verbatim>\<open>escapePHP\<close>:
  \<^verbatim>\<open>str.replace\<close> on \<^verbatim>\<open>undefined\<close> throws a \<^verbatim>\<open>TypeError\<close>.
\<close>

datatype js_error = TypeError

definition escapePHP_at_run_time :: "string option \<Rightarrow> js_error + string" where
  "escapePHP_at_run_time str = (case str of None \<Rightarrow> Inl TypeError | Some s \<Rightarrow> Inr (escapePHP s))"

text \<open>The template of one product (lines 54-64), with its line breaks and indentation.\<close>

definition productPhpArray :: "string ProductImport \<Rightarrow> string" where
  "productPhpArray product =
     ''array(\<newline>        'name' => '' @ php_quoted (name product) @
     '',\<newline>        'description' => '' @ php_quoted (description product) @
     '',\<newline>        'short_description' => '' @ php_quoted (short_description product) @
     '',\<newline>        'regular_price' => '' @ php_quoted (regular_price product) @
     '',\<newline>        'sale_price' => '' @ php_quoted (sale_price product) @
     '',\<newline>        'sku' => '' @ php_quoted (sku product) @
     '',\<newline>        'stock_status' => '' @ php_quoted (stock_status product) @
     '',\<newline>        'categories' => array('' @ join '', '' (map php_quoted (categories product)) @
     ''),\<newline>        'images' => array('' @ join '', '' (map php_quoted (images product)) @
     '')\<newline>      )''"

definition generateProductImportScript :: "string ProductImport list \<Rightarrow> string" where
  "generateProductImportScript products =
     import_script_head @ join '',\<newline>'' (map productPhpArray products) @ import_script_tail"

text \<open>
  The import script of \<^verbatim>\<open>src/unnamed/part_002\<close> (lines 50-256) has the same template
  around the same product array, with its own head and tail.
\<close>

definition generateProductImportScript_part_002 :: "string ProductImport list \<Rightarrow> string" where
  "generateProductImportScript_part_002 products =
     import_script_head_part_002 @ join '',\<newline>'' (map productPhpArray products)
       @ import_script_tail_part_002"

section \<open>The generator (\<^verbatim>\<open>generateWooCommerceBlueprint\<close>)\<close>

text \<open>
  \<^verbatim>\<open>BlueprintGeneratorOptions\<close>: every option is optional. The fields carry the prefix
  \<open>opt_\<close>, since \<^verbatim>\<open>landingPage\<close>, \<^verbatim>\<open>php\<close> and \<^verbatim>\<open>wp\<close> are fields of the
  document as well.
\<close>

record BlueprintGeneratorOptions =
  opt_siteName :: "string option"
  opt_products :: "string ProductImport list option"
  opt_landingPage :: "string option"
  opt_php :: "string option"
  opt_wp :: "string option"
  opt_additionalPlugins :: "string list option"
  opt_additionalSteps :: "BlueprintStep list option"

text \<open>The empty options object \<^verbatim>\<open>{}\<close>, also the default of the parameter.\<close>

definition no_options :: BlueprintGeneratorOptions where
  "no_options =
     \<lparr> opt_siteName = None, opt_products = None, opt_landingPage = None, opt_php = None,
       opt_wp = None, opt_additionalPlugins = None, opt_additionalSteps = None \<rparr>"

text \<open>A destructuring default: \<^verbatim>\<open>const { x = d } = options\<close>.\<close>

definition default_to :: "'a \<Rightarrow> 'a option \<Rightarrow> 'a" where
  "default_to d v = (case v of None \<Rightarrow> d | Some x \<Rightarrow> x)"

text \<open>The site-options step (lines 315-362); the only computed entry is \<^verbatim>\<open>blogname\<close>.\<close>

definition site_options_step :: "string \<Rightarrow> BlueprintStep" where
  "site_options_step siteName =
     SetSiteOptions
       [(''blogname'', JString siteName),
        (''woocommerce_store_city'', JString ''New York''),
        (''woocommerce_store_address'', JString ''123 Main St''),
        (''woocommerce_store_postcode'', JString ''10001''),
        (''woocommerce_default_country'', JString ''US:NY''),
        (''woocommerce_onboarding_profile'', JObject [(''skipped'', JBool True)]),
        (''woocommerce_currency'', JString ''USD''),
        (''woocommerce_weight_unit'', JString ''lbs''),
        (''woocommerce_dimension_unit'', JString ''in''),
        (''woocommerce_allow_tracking'', JString ''no''),
        (''woocommerce_cheque_settings'', JObject [(''enabled'', JString ''yes'')]),
        (''woocommerce_cod_settings'', JObject [(''enabled'', JString ''yes'')]),
        (''woocommerce_bacs_settings'', JObject [(''enabled'', JString ''yes'')]),
        (''woocommerce_calc_taxes'', JString ''yes''),
        (''woocommerce_enable_coupons'', JString ''yes''),
        (''woocommerce_enable_reviews'', JString ''yes''),
        (''woocommerce_enable_review_rating'', JString ''yes''),
        (''woocommerce_manage_stock'', JString ''yes''),
        (''woocommerce_notify_low_stock'', JString ''yes''),
        (''woocommerce_notify_no_stock'', JString ''yes''),
        (''woocommerce_stock_email_recipient'', JString ''admin@example.com''),
        (''woocommerce_notify_low_stock_amount'', JNumber 2),
        (''woocommerce_notify_no_stock_amount'', JNumber 0),
        (''woocommerce_enable_guest_checkout'', JString ''yes''),
        (''woocommerce_enable_checkout_login_reminder'', JString ''yes''),
        (''woocommerce_enable_signup_and_login_from_checkout'', JString ''yes''),
        (''woocommerce_enable_myaccount_registration'', JString ''yes''),
        (''woocommerce_registration_generate_username'', JString ''yes''),
        (''woocommerce_registration_generate_password'', JString ''yes'')]"

text \<open>
  \<^verbatim>\<open>src/blueprint/generator.ts\<close>, lines 233-710. The object literal lists the steps up
  to the debug configuration; the product branch, the caller's additional steps and the
  helper file are then pushed in this order.
\<close>

definition generateWooCommerceBlueprint :: "BlueprintGeneratorOptions \<Rightarrow> Blueprint" where
  "generateWooCommerceBlueprint options =
     (let siteName = default_to ''My WooCommerce Store'' (opt_siteName options);
          products = default_to [] (opt_products options);
          landingPage = default_to ''/wp-admin/'' (opt_landingPage options);
          php = default_to ''8.0'' (opt_php options);
          wp = default_to ''latest'' (opt_wp options);
          additionalPlugins = default_to [] (opt_additionalPlugins options);
          additionalSteps = default_to [] (opt_additionalSteps options);
          steps =
            [InstallPlugin
               (Some (PluginResource ''wordpress.org/plugins'' (Some ''woocommerce'') None None))
               None None,
             InstallPlugin
               (Some (PluginResource ''wordpress.org/plugins'' (Some ''query-monitor'') None None))
               None None]
            @ map (\<lambda>plugin.
                InstallPlugin
                  (Some (PluginResource ''wordpress.org/plugins'' (Some plugin) None None))
                  None None) additionalPlugins
            @ [ActivatePlugin ''woocommerce/woocommerce.php'' None,
               ActivatePlugin ''query-monitor/query-monitor.php'' None]
            @ map (\<lambda>plugin. ActivatePlugin (plugin @ ''/'' @ plugin @ ''.php'') None)
                additionalPlugins
            @ [Mkdir ''/wp-content/mu-plugins'',
               WriteFile ''/wp-content/mu-plugins/rewrite.php'' (DataString rewrite_php),
               site_options_step siteName,
               WriteFile ''/wp-content/mu-plugins/debug-config.php''
                 (DataString debug_config_php)];
          steps =
            (if length products > 0
             then steps @
               [WriteFile ''/wp-content/mu-plugins/import-products.php''
                  (DataString (generateProductImportScript products)),
                RunPHP ''<?php require_once(ABSPATH . 'wp-content/mu-plugins/import-products.php'); ?>'',
                RunPHP ''<?php unlink(ABSPATH . 'wp-content/mu-plugins/import-products.php'); ?>'']
             else steps @ [RunPHP sample_products_php]);
          steps = (if length additionalSteps > 0 then steps @ additionalSteps else steps);
          steps = steps @
            [WriteFile ''/wp-content/mu-plugins/playground-helpers.php''
               (DataString playground_helpers_php)]
      in \<lparr> schema = Some ''https://playground.wordpress.net/blueprint-schema.json'',
           landingPage = Some landingPage,
           preferredVersions = Some \<lparr> php = Some php, wp = Some wp \<rparr>,
           phpExtensionBundles = Some [''kitchen-sink''],
           features = Some \<lparr> networking = Some True \<rparr>,
           login = Some (LoginBool True),
           steps = Some steps,
           constants = None,
           plugins = None,
           themes = None,
           siteOptions = None \<rparr>)"

text \<open>
  The generator of \<^verbatim>\<open>src/unnamed/part_002\<close> (lines 259-800): a core-readiness check
  comes first, plugins are given as \<^verbatim>\<open>pluginData\<close>, query-monitor is gone, the paths
  are absolute under \<^verbatim>\<open>/wordpress\<close>, and a table check is pushed before the product
  branch.
\<close>

definition generateWooCommerceBlueprint_part_002 :: "BlueprintGeneratorOptions \<Rightarrow> Blueprint" where
  "generateWooCommerceBlueprint_part_002 options =
     (let siteName = default_to ''My WooCommerce Store'' (opt_siteName options);
          products = default_to [] (opt_products options);
          landingPage = default_to ''/wp-admin/'' (opt_landingPage options);
          php = default_to ''8.0'' (opt_php options);
          wp = default_to ''latest'' (opt_wp options);
          additionalPlugins = default_to [] (opt_additionalPlugins options);
          additionalSteps = default_to [] (opt_additionalSteps options);
          steps =
            [RunPHP core_check_php,
             InstallPlugin None
               (Some (PluginResource ''wordpress.org/plugins'' (Some ''woocommerce'') None None))
               None]
            @ map (\<lambda>plugin.
                InstallPlugin None
                  (Some (PluginResource ''wordpress.org/plugins'' (Some plugin) None None))
                  None) additionalPlugins
            @ [ActivatePlugin ''woocommerce/woocommerce.php'' None]
            @ map (\<lambda>plugin. ActivatePlugin (plugin @ ''/'' @ plugin @ ''.php'') None)
                additionalPlugins
            @ [Mkdir ''/wordpress/wp-content/mu-plugins'',
               WriteFile ''/wordpress/wp-content/mu-plugins/rewrite.php'' (DataString rewrite_php),
               site_options_step siteName,
               WriteFile ''/wordpress/wp-content/mu-plugins/debug-config.php''
                 (DataString debug_config_php)];
          steps = steps @ [RunPHP wc_tables_php];
          steps =
            (if length products > 0
             then steps @
               [WriteFile ''/wordpress/wp-content/mu-plugins/import-products.php''
                  (DataString (generateProductImportScript_part_002 products)),
                RunPHP ''<?php require_once('/wordpress/wp-content/mu-plugins/import-products.php'); ?>'',
                RunPHP ''<?php unlink('/wordpress/wp-content/mu-plugins/import-products.php'); ?>'']
             else steps @ [RunPHP sample_products_php_part_002]);
          steps = (if length additionalSteps > 0 then steps @ additionalSteps else steps);
          steps = steps @
            [WriteFile ''/wordpress/wp-content/mu-plugins/playground-helpers.php''
               (DataString playground_helpers_php)]
      in \<lparr> schema = Some ''https://playground.wordpress.net/blueprint-schema.json'',
           landingPage = Some landingPage,
           preferredVersions = Some \<lparr> php = Some php, wp = Some wp \<rparr>,
           phpExtensionBundles = Some [''kitchen-sink''],
           features = Some \<lparr> networking = Some True \<rparr>,
           login = Some (LoginBool True),
           steps = Some steps,
           constants = None,
           plugins = None,
           themes = None,
           siteOptions = None \<rparr>)"

section \<open>The merger (\<^verbatim>\<open>mergeBlueprints\<close>, \<^verbatim>\<open>src/cli/index.ts\<close>, lines 168-237)\<close>

text \<open>\<^verbatim>\<open>if (custom.$schema)\<close>: a string is truthy when it is present and not empty.\<close>

definition truthy_string :: "string option \<Rightarrow> bool" where
  "truthy_string v = (case v of None \<Rightarrow> False | Some s \<Rightarrow> s \<noteq> [])"

text \<open>
  \<^verbatim>\<open>Array.prototype.indexOf\<close>: the first index that holds the value, or \<open>-1\<close>.
\<close>

fun indexOf :: "'a list \<Rightarrow> 'a \<Rightarrow> int" where
  "indexOf [] v = -1"
| "indexOf (x # xs) v =
     (if x = v then 0 else (let r = indexOf xs v in if r = -1 then -1 else r + 1))"

text \<open>
  \<^verbatim>\<open>a.filter((v, i, a) => a.indexOf(v) === i)\<close>: an element stays when its index is
  the first index of its value.
\<close>

definition filter_first_index :: "'a list \<Rightarrow> 'a list" where
  "filter_first_index a =
     map fst (filter (\<lambda>(v, i). indexOf a v = int i) (zip a [0..<length a]))"

text \<open>
  The specification's words for the same list: deduplicated, preserving the first
  occurrence of each name. An element is kept unless it was seen before.
\<close>

fun dedup_seen :: "'a list \<Rightarrow> 'a list \<Rightarrow> 'a list" where
  "dedup_seen seen [] = []"
| "dedup_seen seen (x # xs) =
     (if x \<in> set seen then dedup_seen seen xs else x # dedup_seen (seen @ [x]) xs)"

definition dedup_first_occurrence :: "'a list \<Rightarrow> 'a list" where
  "dedup_first_occurrence xs = dedup_seen [] xs"

text \<open>
  An object spread \<^verbatim>\<open>{...b, ...c}\<close>: the properties of \<open>c\<close> win, those of \<open>b\<close>
  that \<open>c\<close> lacks stay; spreading \<^verbatim>\<open>undefined\<close> adds nothing.
\<close>

definition spread_map :: "('k \<rightharpoonup> 'v) option \<Rightarrow> ('k \<rightharpoonup> 'v) \<Rightarrow> ('k \<rightharpoonup> 'v)" where
  "spread_map b c = (case b of None \<Rightarrow> Map.empty | Some m \<Rightarrow> m) ++ c"

definition spread_option :: "'a option \<Rightarrow> 'a option \<Rightarrow> 'a option" where
  "spread_option b c = (case c of None \<Rightarrow> b | Some v \<Rightarrow> Some v)"

definition spread_PreferredVersions ::
    "PreferredVersions option \<Rightarrow> PreferredVersions \<Rightarrow> PreferredVersions" where
  "spread_PreferredVersions b c =
     \<lparr> php = spread_option (Option.bind b php) (php c),
       wp = spread_option (Option.bind b wp) (wp c) \<rparr>"

definition spread_Features :: "Features option \<Rightarrow> Features \<Rightarrow> Features" where
  "spread_Features b c =
     \<lparr> networking = spread_option (Option.bind b networking) (networking c) \<rparr>"

text \<open>
  The body of \<^verbatim>\<open>mergeBlueprints\<close> is a sequence of statements on the copy
  \<^verbatim>\<open>merged\<close> of the base document; each statement is a function from the state of
  \<^verbatim>\<open>merged\<close> before it to the state after it, in the order of the source.
\<close>

definition override_schema :: "Blueprint \<Rightarrow> Blueprint \<Rightarrow> Blueprint" where
  \<comment> \<open>\<^verbatim>\<open>if (custom.$schema) merged.$schema = custom.$schema;\<close>\<close>
  "override_schema custom merged =
     (if truthy_string (schema custom) then merged\<lparr> schema := schema custom \<rparr> else merged)"

definition override_landingPage :: "Blueprint \<Rightarrow> Blueprint \<Rightarrow> Blueprint" where
  \<comment> \<open>\<^verbatim>\<open>if (custom.landingPage) merged.landingPage = custom.landingPage;\<close>\<close>
  "override_landingPage custom merged =
     (if truthy_string (landingPage custom)
      then merged\<lparr> landingPage := landingPage custom \<rparr> else merged)"

definition merge_preferredVersions :: "Blueprint \<Rightarrow> Blueprint \<Rightarrow> Blueprint \<Rightarrow> Blueprint" where
  "merge_preferredVersions base custom merged =
     (case preferredVersions custom of
        None \<Rightarrow> merged
      | Some versions \<Rightarrow>
          merged\<lparr> preferredVersions :=
            Some (spread_PreferredVersions (preferredVersions base) versions) \<rparr>)"

definition merge_phpExtensionBundles :: "Blueprint \<Rightarrow> Blueprint \<Rightarrow> Blueprint \<Rightarrow> Blueprint" where
  \<comment> \<open>\<^verbatim>\<open>[...(base.phpExtensionBundles || []), ...custom.phpExtensionBundles].filter(...)\<close>\<close>
  "merge_phpExtensionBundles base custom merged =
     (case phpExtensionBundles custom of
        None \<Rightarrow> merged
      | Some bundles \<Rightarrow>
          merged\<lparr> phpExtensionBundles :=
            Some (filter_first_index (default_to [] (phpExtensionBundles base) @ bundles)) \<rparr>)"

definition merge_features :: "Blueprint \<Rightarrow> Blueprint \<Rightarrow> Blueprint \<Rightarrow> Blueprint" where
  "merge_features base custom merged =
     (case features custom of
        None \<Rightarrow> merged
      | Some flags \<Rightarrow> merged\<lparr> features := Some (spread_Features (features base) flags) \<rparr>)"

definition override_login :: "Blueprint \<Rightarrow> Blueprint \<Rightarrow> Blueprint" where
  \<comment> \<open>\<^verbatim>\<open>if (custom.login !== undefined) merged.login = custom.login;\<close>\<close>
  "override_login custom merged =
     (case login custom of
        None \<Rightarrow> merged
      | Some setting \<Rightarrow> merged\<lparr> login := Some setting \<rparr>)"

definition merge_plugins :: "Blueprint \<Rightarrow> Blueprint \<Rightarrow> Blueprint \<Rightarrow> Blueprint" where
  "merge_plugins base custom merged =
     (case plugins custom of
        None \<Rightarrow> merged
      | Some ps \<Rightarrow> merged\<lparr> plugins := Some (default_to [] (plugins base) @ ps) \<rparr>)"

definition merge_themes :: "Blueprint \<Rightarrow> Blueprint \<Rightarrow> Blueprint \<Rightarrow> Blueprint" where
  "merge_themes base custom merged =
     (case themes custom of
        None \<Rightarrow> merged
      | Some ts \<Rightarrow> merged\<lparr> themes := Some (default_to [] (themes base) @ ts) \<rparr>)"

definition merge_siteOptions :: "Blueprint \<Rightarrow> Blueprint \<Rightarrow> Blueprint \<Rightarrow> Blueprint" where
  \<comment> \<open>\<^verbatim>\<open>{ ...base.siteOptions, ...custom.siteOptions }\<close>\<close>
  "merge_siteOptions base custom merged =
     (case siteOptions custom of
        None \<Rightarrow> merged
      | Some opts \<Rightarrow> merged\<lparr> siteOptions := Some (spread_map (siteOptions base) opts) \<rparr>)"

definition merge_constants :: "Blueprint \<Rightarrow> Blueprint \<Rightarrow> Blueprint \<Rightarrow> Blueprint" where
  "merge_constants base custom merged =
     (case constants custom of
        None \<Rightarrow> merged
      | Some consts \<Rightarrow> merged\<lparr> constants := Some (spread_map (constants base) consts) \<rparr>)"

definition append_steps :: "Blueprint \<Rightarrow> Blueprint \<Rightarrow> Blueprint \<Rightarrow> Blueprint" where
  "append_steps base custom merged =
     (case steps custom of
        None \<Rightarrow> merged
      | Some ss \<Rightarrow> merged\<lparr> steps := Some (default_to [] (steps base) @ ss) \<rparr>)"

definition mergeBlueprints :: "Blueprint \<Rightarrow> Blueprint \<Rightarrow> Blueprint" where
  "mergeBlueprints base custom =
     (let merged = base;
          merged = override_schema custom merged;
          merged = override_landingPage custom merged;
          merged = merge_preferredVersions base custom merged;
          merged = merge_phpExtensionBundles base custom merged;
          merged = merge_features base custom merged;
          merged = override_login custom merged;
          merged = merge_plugins base custom merged;
          merged = merge_themes base custom merged;
          merged = merge_siteOptions base custom merged;
          merged = merge_constants base custom merged;
          merged = append_steps base custom merged
      in merged)"

section \<open>Reading a step sequence\<close>

text \<open>A file-write step whose path ends in the import helper's file name.\<close>

fun writes_import_helper :: "BlueprintStep \<Rightarrow> bool" where
  "writes_import_helper (WriteFile path d) = endsWith path ''import-products.php''"
| "writes_import_helper _ = False"

text \<open>
  A default-sample-data step: the run step of a built-in sample catalogue, or a step of
  tag \<^verbatim>\<open>importWxr\<close> (the default import of the oldest generator,
  \<^verbatim>\<open>src/unnamed/part_003\<close>, and the tag that \<^verbatim>\<open>test/blueprint.test.ts\<close> looks for).
\<close>

fun default_sample_data_step :: "BlueprintStep \<Rightarrow> bool" where
  "default_sample_data_step (RunPHP code) =
     (code = sample_products_php \<or> code = sample_products_php_part_002)"
| "default_sample_data_step (ImportWxr file) = True"
| "default_sample_data_step _ = False"

text \<open>
  The import-helper block: the file-write step of the helper, directly followed by the
  run step with the code \<open>run\<close> and the run step with the code \<open>remove\<close>.
\<close>

fun import_block_here :: "string \<Rightarrow> string \<Rightarrow> BlueprintStep list \<Rightarrow> bool" where
  "import_block_here run remove (WriteFile path d # RunPHP c1 # RunPHP c2 # rest) =
     (endsWith path ''import-products.php'' \<and> c1 = run \<and> c2 = remove)"
| "import_block_here run remove ss = False"

fun has_import_block :: "string \<Rightarrow> string \<Rightarrow> BlueprintStep list \<Rightarrow> bool" where
  "has_import_block run remove [] = False"
| "has_import_block run remove (s # ss) =
     (import_block_here run remove (s # ss) \<or> has_import_block run remove ss)"

text \<open>The two run codes of the block in \<^verbatim>\<open>src/blueprint/generator.ts\<close> (lines 422, 426).\<close>

definition require_import_helper :: string where
  "require_import_helper =
     ''<?php require_once(ABSPATH . 'wp-content/mu-plugins/import-products.php'); ?>''"

definition unlink_import_helper :: string where
  "unlink_import_helper =
     ''<?php unlink(ABSPATH . 'wp-content/mu-plugins/import-products.php'); ?>''"

text \<open>And in \<^verbatim>\<open>src/unnamed/part_002\<close> (lines 509, 513).\<close>

definition require_import_helper_part_002 :: string where
  "require_import_helper_part_002 =
     ''<?php require_once('/wordpress/wp-content/mu-plugins/import-products.php'); ?>''"

definition unlink_import_helper_part_002 :: string where
  "unlink_import_helper_part_002 =
     ''<?php unlink('/wordpress/wp-content/mu-plugins/import-products.php'); ?>''"

section \<open>Concrete inputs\<close>

text \<open>The document \<^verbatim>\<open>{}\<close>, a remote product \<^verbatim>\<open>{}\<close>, and one product to import.\<close>

definition empty_blueprint :: Blueprint where
  "empty_blueprint =
     \<lparr> schema = None, landingPage = None, preferredVersions = None,
       phpExtensionBundles = None, features = None, login = None, steps = None,
       constants = None, plugins = None, themes = None, siteOptions = None \<rparr>"

definition empty_remote_product :: PublicWooCommerceProduct where
  "empty_remote_product =
     \<lparr> remote_name = None, remote_description = None, remote_short_description = None,
       remote_prices = None, remote_sku = None, remote_is_in_stock = None,
       remote_categories = None, remote_images = None, remote_attributes = None,
       remote_variations = None \<rparr>"

definition test_product :: "string ProductImport" where
  "test_product =
     \<lparr> name = ''Test Product'', description = ''A test product'', short_description = ''Test'',
       price = ''10.00'', regular_price = ''10.00'', sale_price = [], sku = ''TEST-001'',
       stock_status = ''instock'', categories = [''Test Category''],
       images = [''https://example.com/image.jpg''], attributes = [], variations = [] \<rparr>"


section \<open>Properties of the escaping\<close>

lemma escapePHP_hd_not_quote: "escapePHP s \<noteq> quote # r"
  by (cases s) auto

lemma undo_quote_escaping_Cons:
  "a \<noteq> backslash \<or> r \<noteq> [] \<and> hd r \<noteq> quote \<or> r = [] \<Longrightarrow>
   undo_quote_escaping (a # r) = a # undo_quote_escaping r"
  by (cases r) auto

lemma undo_escapePHP: "undo_quote_escaping (escapePHP s) = s"
proof (induction s)
  case Nil
  show ?case by simp
next
  case (Cons c cs)
  have nq: "escapePHP cs = [] \<or> hd (escapePHP cs) \<noteq> quote"
    using escapePHP_hd_not_quote [of cs] by (cases "escapePHP cs") auto
  show ?case
  proof (cases "c = quote")
    case True
    then show ?thesis using Cons.IH by simp
  next
    case False
    have "undo_quote_escaping (c # escapePHP cs) = c # undo_quote_escaping (escapePHP cs)"
      using nq by (intro undo_quote_escaping_Cons) auto
    then show ?thesis using False Cons.IH by simp
  qed
qed

lemma escapePHP_quote_preceded:
  "i < length (escapePHP s) \<Longrightarrow> escapePHP s ! i = quote \<Longrightarrow>
   0 < i \<and> escapePHP s ! (i - 1) = backslash"
proof (induction s arbitrary: i)
  case Nil
  then show ?case by simp
next
  case (Cons c cs)
  show ?case
  proof (cases "c = quote")
    case True
    show ?thesis
    proof (cases i)
      case 0
      with True Cons.prems show ?thesis by simp
    next
      case (Suc j)
      show ?thesis
      proof (cases j)
        case 0
        with Suc True show ?thesis by simp
      next
        case (Suc k)
        with \<open>i = Suc j\<close> True Cons.prems
        have "k < length (escapePHP cs)" "escapePHP cs ! k = quote" by auto
        from Cons.IH [OF this] \<open>i = Suc j\<close> Suc True show ?thesis
          by (cases k) auto
      qed
    qed
  next
    case False
    show ?thesis
    proof (cases i)
      case 0
      with False Cons.prems show ?thesis by simp
    next
      case (Suc j)
      with False Cons.prems
      have "j < length (escapePHP cs)" "escapePHP cs ! j = quote" by auto
      from Cons.IH [OF this] Suc False show ?thesis
        by (cases j) auto
    qed
  qed
qed

text \<open>
  Claim C8. Every single quote of the escaped text is escaped, that is, stands directly
  after a backslash, and replacing each escaped quote by a plain quote gives back the
  original text exactly. This holds for every text, in particular for every product name
  that contains a single quote.
\<close>

theorem escapePHP_round_trip:
  "(\<forall>i < length (escapePHP s).
      escapePHP s ! i = quote \<longrightarrow> 0 < i \<and> escapePHP s ! (i - 1) = backslash)
   \<and> undo_quote_escaping (escapePHP s) = s"
  using escapePHP_quote_preceded undo_escapePHP by blast

theorem escapePHP_round_trip_witness:
  "quote \<in> set ''O'Brien'' \<and> escapePHP ''O'Brien'' = ''O'' @ [backslash, quote] @ ''Brien''
   \<and> escapePHP ''O'Brien'' ! 2 = quote \<and> escapePHP ''O'Brien'' ! (2 - 1) = backslash
   \<and> undo_quote_escaping (escapePHP ''O'Brien'') = ''O'Brien''"
  using escapePHP_round_trip [of "''O'Brien''"] by simp

text \<open>
  The import script holds the name of every product in its escaped form, between single
  quotes, as the template \<^verbatim>\<open>'${escapePHP(product.name)}'\<close> writes it.
\<close>

lemma join_holds_member:
  "x \<in> set xs \<Longrightarrow> \<exists>before after. join sep xs = before @ x @ after"
proof (induction sep xs rule: join.induct)
  case (1 sep)
  then show ?case by simp
next
  case (2 sep y)
  then have "join sep [y] = [] @ x @ []" by simp
  then show ?case by blast
next
  case (3 sep y z zs)
  show ?case
  proof (cases "x = y")
    case True
    then have "join sep (y # z # zs) = [] @ x @ (sep @ join sep (z # zs))" by simp
    then show ?thesis by blast
  next
    case False
    with 3 obtain before after where "join sep (z # zs) = before @ x @ after" by auto
    then have "join sep (y # z # zs) = (y @ sep @ before) @ x @ after" by simp
    then show ?thesis by blast
  qed
qed

lemma import_script_holds_escaped_name:
  assumes "product \<in> set products"
  shows "\<exists>before after. generateProductImportScript products =
           before @ ([quote] @ escapePHP (name product) @ [quote]) @ after"
proof -
  have "productPhpArray product \<in> set (map productPhpArray products)"
    using assms by simp
  then obtain b a where ba: "join '',\<newline>'' (map productPhpArray products)
      = b @ productPhpArray product @ a"
    using join_holds_member by blast
  obtain rest where rest: "productPhpArray product =
      ''array(\<newline>        'name' => '' @ ([quote] @ escapePHP (name product) @ [quote]) @ rest"
    by (simp add: productPhpArray_def php_quoted_def)
  have "generateProductImportScript products =
      (import_script_head @ b @ ''array(\<newline>        'name' => '')
      @ ([quote] @ escapePHP (name product) @ [quote]) @ (rest @ a @ import_script_tail)"
    unfolding generateProductImportScript_def ba rest by simp
  then show ?thesis by blast
qed

section \<open>Properties of the merger\<close>

lemma indexOf_ge: "- 1 \<le> indexOf xs v"
  by (induction xs) (auto simp: Let_def)

lemma indexOf_minus_one: "indexOf xs v = -1 \<longleftrightarrow> v \<notin> set xs"
proof (induction xs)
  case Nil
  show ?case by simp
next
  case (Cons x xs)
  show ?case using Cons.IH indexOf_ge [of xs v] by (auto simp: Let_def)
qed

lemma indexOf_nonneg: "v \<in> set xs \<Longrightarrow> 0 \<le> indexOf xs v"
  using indexOf_minus_one [of xs v] indexOf_ge [of xs v] by linarith

lemma indexOf_append:
  "indexOf (pre @ r) v =
     (if v \<in> set pre then indexOf pre v
      else if indexOf r v = -1 then -1 else int (length pre) + indexOf r v)"
proof (induction pre)
  case Nil
  show ?case by simp
next
  case (Cons p pre)
  show ?case
    using Cons.IH indexOf_nonneg [of v r] indexOf_nonneg [of v pre]
    by (auto simp: Let_def indexOf_minus_one)
qed

lemma indexOf_less: "v \<in> set xs \<Longrightarrow> indexOf xs v < int (length xs)"
  by (induction xs) (auto simp: Let_def)

lemma indexOf_at_boundary:
  "indexOf (pre @ x # r) x = int (length pre) \<longleftrightarrow> x \<notin> set pre"
  using indexOf_less [of x pre] by (auto simp: indexOf_append)

lemma dedup_seen_cong: "set s1 = set s2 \<Longrightarrow> dedup_seen s1 xs = dedup_seen s2 xs"
proof (induction xs arbitrary: s1 s2)
  case Nil
  show ?case by simp
next
  case (Cons x xs)
  have "dedup_seen (s1 @ [x]) xs = dedup_seen (s2 @ [x]) xs"
    using Cons.prems by (intro Cons.IH) simp
  moreover have "dedup_seen s1 xs = dedup_seen s2 xs"
    using Cons.prems by (intro Cons.IH)
  ultimately show ?case using Cons.prems by simp
qed

lemma filter_first_index_from:
  "map fst (filter (\<lambda>(v, i). indexOf (pre @ xs) v = int i)
      (zip xs [length pre..<length pre + length xs])) = dedup_seen pre xs"
proof (induction xs arbitrary: pre)
  case Nil
  show ?case by simp
next
  case (Cons x xs)
  have upt: "[length pre..<length pre + length (x # xs)]
      = length pre # [length (pre @ [x])..<length (pre @ [x]) + length xs]"
    by (subst upt_rec) simp
  have rest: "map fst (filter (\<lambda>(v, i). indexOf (pre @ x # xs) v = int i)
      (zip xs [length (pre @ [x])..<length (pre @ [x]) + length xs])) = dedup_seen (pre @ [x]) xs"
    using Cons.IH [of "pre @ [x]"] by simp
  show ?case
  proof (cases "x \<in> set pre")
    case True
    then have "set (pre @ [x]) = set pre" by auto
    then have "dedup_seen (pre @ [x]) xs = dedup_seen pre xs" by (rule dedup_seen_cong)
    with True rest show ?thesis
      unfolding upt using indexOf_at_boundary [of pre x xs] by simp
  next
    case False
    with rest show ?thesis
      unfolding upt using indexOf_at_boundary [of pre x xs] by simp
  qed
qed

lemma filter_first_index_dedup: "filter_first_index a = dedup_first_occurrence a"
  using filter_first_index_from [of "[]" a]
  by (simp add: filter_first_index_def dedup_first_occurrence_def)

lemma set_dedup_seen: "set (dedup_seen seen xs) = set xs - set seen"
  by (induction xs arbitrary: seen) auto

lemma distinct_dedup_seen: "distinct (dedup_seen seen xs)"
  by (induction xs arbitrary: seen) (auto simp: set_dedup_seen)

lemmas merge_statement_defs =
  override_schema_def override_landingPage_def merge_preferredVersions_def
  merge_phpExtensionBundles_def merge_features_def override_login_def merge_plugins_def
  merge_themes_def merge_siteOptions_def merge_constants_def append_steps_def

lemma merge_schema:
  "schema (mergeBlueprints B C) = (if truthy_string (schema C) then schema C else schema B)"
proof -
  have "schema (override_landingPage c m) = schema m"
    "schema (merge_preferredVersions b c m) = schema m"
    "schema (merge_phpExtensionBundles b c m) = schema m"
    "schema (merge_features b c m) = schema m"
    "schema (override_login c m) = schema m"
    "schema (merge_plugins b c m) = schema m"
    "schema (merge_themes b c m) = schema m"
    "schema (merge_siteOptions b c m) = schema m"
    "schema (merge_constants b c m) = schema m"
    "schema (append_steps b c m) = schema m" for b c m
    by (simp_all add: merge_statement_defs split: option.splits)
  then show ?thesis by (simp add: mergeBlueprints_def override_schema_def)
qed

lemma merge_landingPage:
  "landingPage (mergeBlueprints B C) =
     (if truthy_string (landingPage C) then landingPage C else landingPage B)"
proof -
  have "landingPage (override_schema c m) = landingPage m"
    "landingPage (merge_preferredVersions b c m) = landingPage m"
    "landingPage (merge_phpExtensionBundles b c m) = landingPage m"
    "landingPage (merge_features b c m) = landingPage m"
    "landingPage (override_login c m) = landingPage m"
    "landingPage (merge_plugins b c m) = landingPage m"
    "landingPage (merge_themes b c m) = landingPage m"
    "landingPage (merge_siteOptions b c m) = landingPage m"
    "landingPage (merge_constants b c m) = landingPage m"
    "landingPage (append_steps b c m) = landingPage m" for b c m
    by (simp_all add: merge_statement_defs split: option.splits)
  then show ?thesis by (simp add: mergeBlueprints_def override_landingPage_def)
qed

lemma merge_login:
  "login (mergeBlueprints B C) = (case login C of None \<Rightarrow> login B | Some setting \<Rightarrow> Some setting)"
proof -
  have "login (override_schema c m) = login m"
    "login (override_landingPage c m) = login m"
    "login (merge_preferredVersions b c m) = login m"
    "login (merge_phpExtensionBundles b c m) = login m"
    "login (merge_features b c m) = login m"
    "login (merge_plugins b c m) = login m"
    "login (merge_themes b c m) = login m"
    "login (merge_siteOptions b c m) = login m"
    "login (merge_constants b c m) = login m"
    "login (append_steps b c m) = login m" for b c m
    by (simp_all add: merge_statement_defs split: option.splits)
  then show ?thesis by (simp add: mergeBlueprints_def override_login_def split: option.splits)
qed

lemma merge_siteOptions_field:
  "siteOptions (mergeBlueprints B C) =
     (case siteOptions C of
        None \<Rightarrow> siteOptions B
      | Some opts \<Rightarrow> Some (spread_map (siteOptions B) opts))"
proof -
  have "siteOptions (override_schema c m) = siteOptions m"
    "siteOptions (override_landingPage c m) = siteOptions m"
    "siteOptions (merge_preferredVersions b c m) = siteOptions m"
    "siteOptions (merge_phpExtensionBundles b c m) = siteOptions m"
    "siteOptions (merge_features b c m) = siteOptions m"
    "siteOptions (override_login c m) = siteOptions m"
    "siteOptions (merge_plugins b c m) = siteOptions m"
    "siteOptions (merge_themes b c m) = siteOptions m"
    "siteOptions (merge_constants b c m) = siteOptions m"
    "siteOptions (append_steps b c m) = siteOptions m" for b c m
    by (simp_all add: merge_statement_defs split: option.splits)
  then show ?thesis by (simp add: mergeBlueprints_def merge_siteOptions_def split: option.splits)
qed

lemma merge_phpExtensionBundles_field:
  "phpExtensionBundles (mergeBlueprints B C) =
     (case phpExtensionBundles C of
        None \<Rightarrow> phpExtensionBundles B
      | Some bundles \<Rightarrow>
          Some (filter_first_index (default_to [] (phpExtensionBundles B) @ bundles)))"
proof -
  have "phpExtensionBundles (override_schema c m) = phpExtensionBundles m"
    "phpExtensionBundles (override_landingPage c m) = phpExtensionBundles m"
    "phpExtensionBundles (merge_preferredVersions b c m) = phpExtensionBundles m"
    "phpExtensionBundles (merge_features b c m) = phpExtensionBundles m"
    "phpExtensionBundles (override_login c m) = phpExtensionBundles m"
    "phpExtensionBundles (merge_plugins b c m) = phpExtensionBundles m"
    "phpExtensionBundles (merge_themes b c m) = phpExtensionBundles m"
    "phpExtensionBundles (merge_siteOptions b c m) = phpExtensionBundles m"
    "phpExtensionBundles (merge_constants b c m) = phpExtensionBundles m"
    "phpExtensionBundles (append_steps b c m) = phpExtensionBundles m" for b c m
    by (simp_all add: merge_statement_defs split: option.splits)
  then show ?thesis
    by (simp add: mergeBlueprints_def merge_phpExtensionBundles_def split: option.splits)
qed

text \<open>
  An override whose \<^verbatim>\<open>$schema\<close> is present but empty does not win: the test
  \<^verbatim>\<open>if (custom.$schema)\<close> is a truthiness test, and the empty string is falsy. The
  same holds for \<^verbatim>\<open>landingPage\<close>.
\<close>

theorem merge_scalar_fields_cex:
  "schema (empty_blueprint\<lparr> schema := Some [] \<rparr>) = Some []
   \<and> schema (mergeBlueprints (empty_blueprint\<lparr> schema := Some ''base.json'' \<rparr>)
        (empty_blueprint\<lparr> schema := Some [] \<rparr>)) = Some ''base.json''
   \<and> schema (mergeBlueprints (empty_blueprint\<lparr> schema := Some ''base.json'' \<rparr>)
        (empty_blueprint\<lparr> schema := Some [] \<rparr>)) \<noteq> schema (empty_blueprint\<lparr> schema := Some [] \<rparr>)"
  by (simp add: merge_schema truthy_string_def empty_blueprint_def)

text \<open>
  Claim C3, as the code has it. The schema identifier and the landing page of the merged
  document are the override's when the override has them present and not empty, and the
  base's otherwise; the login setting is the override's whenever the override has it
  present (\<^verbatim>\<open>false\<close> included), and the base's otherwise.
\<close>

theorem merge_scalar_fields:
  "schema (mergeBlueprints B C) =
     (case schema C of None \<Rightarrow> schema B | Some s \<Rightarrow> if s = [] then schema B else Some s)
   \<and> landingPage (mergeBlueprints B C) =
     (case landingPage C of None \<Rightarrow> landingPage B | Some s \<Rightarrow> if s = [] then landingPage B else Some s)
   \<and> login (mergeBlueprints B C) =
     (case login C of None \<Rightarrow> login B | Some setting \<Rightarrow> Some setting)"
  by (simp add: merge_schema merge_landingPage merge_login truthy_string_def split: option.splits)

theorem merge_scalar_fields_witness:
  "login (mergeBlueprints (empty_blueprint\<lparr> login := Some (LoginBool True), landingPage := Some ''/wp-admin/'' \<rparr>)
      (empty_blueprint\<lparr> login := Some (LoginBool False), landingPage := Some [] \<rparr>)) = Some (LoginBool False)
   \<and> landingPage (mergeBlueprints (empty_blueprint\<lparr> login := Some (LoginBool True), landingPage := Some ''/wp-admin/'' \<rparr>)
      (empty_blueprint\<lparr> login := Some (LoginBool False), landingPage := Some [] \<rparr>)) = Some ''/wp-admin/''
   \<and> schema (mergeBlueprints (empty_blueprint\<lparr> schema := Some ''base.json'' \<rparr>)
      (empty_blueprint\<lparr> schema := Some ''custom.json'' \<rparr>)) = Some ''custom.json''"
  using merge_scalar_fields [of "empty_blueprint\<lparr> login := Some (LoginBool True), landingPage := Some ''/wp-admin/'' \<rparr>"
      "empty_blueprint\<lparr> login := Some (LoginBool False), landingPage := Some [] \<rparr>"]
    merge_scalar_fields [of "empty_blueprint\<lparr> schema := Some ''base.json'' \<rparr>"
      "empty_blueprint\<lparr> schema := Some ''custom.json'' \<rparr>"]
  by (simp add: empty_blueprint_def)

text \<open>
  Claim C6. When the override has site options, the merged site options hold every key
  of the override with the override's value, and every other key as the base has it: a
  key of the base that the override lacks keeps the base's value, and no key is added.
\<close>

theorem merge_siteOptions_keys:
  assumes "siteOptions C = Some opts"
  shows "\<exists>m. siteOptions (mergeBlueprints B C) = Some m
     \<and> (\<forall>k. k \<in> dom opts \<longrightarrow> m k = opts k)
     \<and> (\<forall>k. k \<notin> dom opts \<longrightarrow> m k = (case siteOptions B of None \<Rightarrow> None | Some b \<Rightarrow> b k))"
  using assms
  by (auto simp add: merge_siteOptions_field spread_map_def map_add_def dom_def split: option.splits)

theorem merge_siteOptions_keys_witness:
  "siteOptions (empty_blueprint\<lparr> siteOptions := Some [''blogname'' \<mapsto> JString ''Mine''] \<rparr>)
      = Some [''blogname'' \<mapsto> JString ''Mine'']
   \<and> (\<exists>m. siteOptions (mergeBlueprints
          (empty_blueprint\<lparr> siteOptions :=
             Some [''blogname'' \<mapsto> JString ''Base'', ''woocommerce_currency'' \<mapsto> JString ''USD''] \<rparr>)
          (empty_blueprint\<lparr> siteOptions := Some [''blogname'' \<mapsto> JString ''Mine''] \<rparr>)) = Some m
        \<and> m ''blogname'' = Some (JString ''Mine'')
        \<and> m ''woocommerce_currency'' = Some (JString ''USD''))"
proof -
  let ?B = "empty_blueprint\<lparr> siteOptions :=
             Some [''blogname'' \<mapsto> JString ''Base'', ''woocommerce_currency'' \<mapsto> JString ''USD''] \<rparr>"
  let ?C = "empty_blueprint\<lparr> siteOptions := Some [''blogname'' \<mapsto> JString ''Mine''] \<rparr>"
  have h: "siteOptions ?C = Some [''blogname'' \<mapsto> JString ''Mine'']" by simp
  from merge_siteOptions_keys [OF h, of ?B]
  obtain m where m: "siteOptions (mergeBlueprints ?B ?C) = Some m"
    "\<forall>k. k \<in> dom [''blogname'' \<mapsto> JString ''Mine''] \<longrightarrow> m k = [''blogname'' \<mapsto> JString ''Mine''] k"
    "\<forall>k. k \<notin> dom [''blogname'' \<mapsto> JString ''Mine''] \<longrightarrow> m k = (case siteOptions ?B of None \<Rightarrow> None | Some b \<Rightarrow> b k)"
    by blast
  from m(2) have "m ''blogname'' = Some (JString ''Mine'')" by simp
  moreover from m(3) have "m ''woocommerce_currency'' = Some (JString ''USD'')" by simp
  ultimately show ?thesis using m(1) h by blast
qed

text \<open>
  Claim C7. When the override has an extension bundle list, the merged list has no
  duplicate entry, and it is the base's list followed by the override's list,
  deduplicated preserving the first occurrence of each name (the base's list counts as
  empty when absent).
\<close>

theorem merge_phpExtensionBundles_dedup:
  assumes "phpExtensionBundles C = Some bundles"
  shows "\<exists>r. phpExtensionBundles (mergeBlueprints B C) = Some r
     \<and> distinct r
     \<and> r = dedup_first_occurrence (default_to [] (phpExtensionBundles B) @ bundles)
     \<and> set r = set (default_to [] (phpExtensionBundles B)) \<union> set bundles"
  using assms
  by (simp add: merge_phpExtensionBundles_field filter_first_index_dedup
      dedup_first_occurrence_def distinct_dedup_seen set_dedup_seen)

theorem merge_phpExtensionBundles_dedup_witness:
  "phpExtensionBundles (empty_blueprint\<lparr> phpExtensionBundles := Some [''intl'', ''kitchen-sink'', ''intl''] \<rparr>)
     = Some [''intl'', ''kitchen-sink'', ''intl'']
   \<and> phpExtensionBundles (mergeBlueprints
        (empty_blueprint\<lparr> phpExtensionBundles := Some [''kitchen-sink''] \<rparr>)
        (empty_blueprint\<lparr> phpExtensionBundles := Some [''intl'', ''kitchen-sink'', ''intl''] \<rparr>))
     = Some [''kitchen-sink'', ''intl'']"
  using merge_phpExtensionBundles_dedup [of
      "empty_blueprint\<lparr> phpExtensionBundles := Some [''intl'', ''kitchen-sink'', ''intl''] \<rparr>"
      "[''intl'', ''kitchen-sink'', ''intl'']"
      "empty_blueprint\<lparr> phpExtensionBundles := Some [''kitchen-sink''] \<rparr>"]
  by (simp add: empty_blueprint_def default_to_def dedup_first_occurrence_def)

section \<open>Properties of the normalizer\<close>

text \<open>
  Claim C2 at a remote product that has neither \<^verbatim>\<open>name\<close> nor \<^verbatim>\<open>description\<close>
  (\<^verbatim>\<open>{is_in_stock: false}\<close>, a partial record as the test passes them). The claim gives
  the empty string for both. The code defaults every other field of the result, but
  returns \<^verbatim>\<open>undefined\<close> for these two, so the result is no \<^verbatim>\<open>ProductImport\<close> as
  declared, and \<^verbatim>\<open>escapePHP\<close> throws on its name when the generator is given it.
\<close>

theorem transform_absent_name:
  "name (transformWooCommerceProducts [empty_remote_product\<lparr> remote_is_in_stock := Some False \<rparr>] ! 0) = None
   \<and> name (transformWooCommerceProducts [empty_remote_product\<lparr> remote_is_in_stock := Some False \<rparr>] ! 0) \<noteq> Some []
   \<and> description (transformWooCommerceProducts [empty_remote_product\<lparr> remote_is_in_stock := Some False \<rparr>] ! 0) = None
   \<and> short_description (transformWooCommerceProducts [empty_remote_product\<lparr> remote_is_in_stock := Some False \<rparr>] ! 0) = []
   \<and> price (transformWooCommerceProducts [empty_remote_product\<lparr> remote_is_in_stock := Some False \<rparr>] ! 0) = ''0''
   \<and> regular_price (transformWooCommerceProducts [empty_remote_product\<lparr> remote_is_in_stock := Some False \<rparr>] ! 0) = ''0''
   \<and> sale_price (transformWooCommerceProducts [empty_remote_product\<lparr> remote_is_in_stock := Some False \<rparr>] ! 0) = []
   \<and> sku (transformWooCommerceProducts [empty_remote_product\<lparr> remote_is_in_stock := Some False \<rparr>] ! 0) = []
   \<and> stock_status (transformWooCommerceProducts [empty_remote_product\<lparr> remote_is_in_stock := Some False \<rparr>] ! 0) = ''outofstock''
   \<and> categories (transformWooCommerceProducts [empty_remote_product\<lparr> remote_is_in_stock := Some False \<rparr>] ! 0) = []
   \<and> images (transformWooCommerceProducts [empty_remote_product\<lparr> remote_is_in_stock := Some False \<rparr>] ! 0) = []
   \<and> escapePHP_at_run_time
        (name (transformWooCommerceProducts [empty_remote_product\<lparr> remote_is_in_stock := Some False \<rparr>] ! 0))
       = Inl TypeError"
  by (simp add: transformWooCommerceProducts_def transformProduct_def empty_remote_product_def
      or_string_def escapePHP_at_run_time_def)

text \<open>
  The rest of the contract holds on every input: the result has the length and the order
  of the input; a \<^verbatim>\<open>name\<close> and a \<^verbatim>\<open>description\<close> that are present are copied as
  they are; \<^verbatim>\<open>short_description\<close> is the source's, or the empty string when absent;
  \<^verbatim>\<open>stock_status\<close> is \<^verbatim>\<open>instock\<close> when \<^verbatim>\<open>is_in_stock\<close> is \<^verbatim>\<open>true\<close> and
  \<^verbatim>\<open>outofstock\<close> otherwise, and never any other value.
\<close>

lemma transform_products_present:
  "length (transformWooCommerceProducts ps) = length ps
   \<and> (\<forall>i < length ps.
        (\<forall>n. remote_name (ps ! i) = Some n \<longrightarrow> name (transformWooCommerceProducts ps ! i) = Some n)
      \<and> (\<forall>d. remote_description (ps ! i) = Some d
            \<longrightarrow> description (transformWooCommerceProducts ps ! i) = Some d)
      \<and> short_description (transformWooCommerceProducts ps ! i)
          = default_to [] (remote_short_description (ps ! i))
      \<and> stock_status (transformWooCommerceProducts ps ! i)
          = (if remote_is_in_stock (ps ! i) = Some True then ''instock'' else ''outofstock'')
      \<and> (stock_status (transformWooCommerceProducts ps ! i) = ''instock''
          \<or> stock_status (transformWooCommerceProducts ps ! i) = ''outofstock''))"
  by (simp add: transformWooCommerceProducts_def transformProduct_def or_string_def default_to_def
      split: option.splits)

section \<open>Properties of the generator\<close>

text \<open>
  Claim C9. For every option set the generated document has \<^verbatim>\<open>login\<close> equal to
  \<^verbatim>\<open>true\<close>, the one-element extension bundle list \<^verbatim>\<open>["kitchen-sink"]\<close> and the
  features \<^verbatim>\<open>{networking: true}\<close>; no option changes any of the three.
\<close>

theorem generate_constant_fields:
  "login (generateWooCommerceBlueprint options) = Some (LoginBool True)
   \<and> phpExtensionBundles (generateWooCommerceBlueprint options) = Some [''kitchen-sink'']
   \<and> features (generateWooCommerceBlueprint options) = Some \<lparr> networking = Some True \<rparr>"
  by (simp add: generateWooCommerceBlueprint_def Let_def)

text \<open>
  In \<^verbatim>\<open>src/blueprint/generator.ts\<close> the step list starts with the install step of
  \<^verbatim>\<open>woocommerce\<close>; the second step installs \<^verbatim>\<open>query-monitor\<close>.
\<close>

theorem generate_empty_options_cex:
  "(case steps (generateWooCommerceBlueprint no_options) of
      None \<Rightarrow> False
    | Some ss \<Rightarrow>
        ss ! 1 = InstallPlugin
          (Some (PluginResource ''wordpress.org/plugins'' (Some ''query-monitor'') None None)) None None
      \<and> ss ! 1 \<noteq> InstallPlugin
          (Some (PluginResource ''wordpress.org/plugins'' (Some ''woocommerce'') None None)) None None
      \<and> ss ! 1 \<noteq> InstallPlugin None
          (Some (PluginResource ''wordpress.org/plugins'' (Some ''woocommerce'') None None)) None)"
  by (simp add: generateWooCommerceBlueprint_def no_options_def default_to_def Let_def)

text \<open>
  Claim C1, as the code has it. For the empty options object the generator of
  \<^verbatim>\<open>src/blueprint/generator.ts\<close> gives the preferred versions
  \<^verbatim>\<open>{php: "8.0", wp: "latest"}\<close>, a step sequence whose first step installs the plugin
  with the slug \<^verbatim>\<open>woocommerce\<close>, and whose last step writes the developer-helper file
  \<^verbatim>\<open>playground-helpers.php\<close>. The generator of \<^verbatim>\<open>src/unnamed/part_002\<close> puts a
  core-readiness check first: it gives the same preferred versions and the same last
  step (under \<^verbatim>\<open>/wordpress\<close>), and there the install step of \<^verbatim>\<open>woocommerce\<close> is the
  second step.
\<close>

theorem generate_empty_options:
  "preferredVersions (generateWooCommerceBlueprint no_options)
     = Some \<lparr> php = Some ''8.0'', wp = Some ''latest'' \<rparr>
   \<and> (\<exists>ss. steps (generateWooCommerceBlueprint no_options) = Some ss
        \<and> 0 < length ss
        \<and> ss ! 0 = InstallPlugin
             (Some (PluginResource ''wordpress.org/plugins'' (Some ''woocommerce'') None None)) None None
        \<and> last ss = WriteFile ''/wp-content/mu-plugins/playground-helpers.php''
             (DataString playground_helpers_php))
   \<and> preferredVersions (generateWooCommerceBlueprint_part_002 no_options)
     = Some \<lparr> php = Some ''8.0'', wp = Some ''latest'' \<rparr>
   \<and> (\<exists>ss. steps (generateWooCommerceBlueprint_part_002 no_options) = Some ss
        \<and> 1 < length ss
        \<and> ss ! 1 = InstallPlugin None
             (Some (PluginResource ''wordpress.org/plugins'' (Some ''woocommerce'') None None)) None
        \<and> last ss = WriteFile ''/wordpress/wp-content/mu-plugins/playground-helpers.php''
             (DataString playground_helpers_php))"
  by (simp add: generateWooCommerceBlueprint_def generateWooCommerceBlueprint_part_002_def
      no_options_def default_to_def Let_def)

text \<open>
  Claim C10. For every list of additional plugin slugs the step sequence starts with the
  two fixed install steps, one install step per slug in the caller's order, the two fixed
  activation steps, and one activation step per slug in the caller's order, whose plugin
  path is the slug, a slash, the slug again and \<^verbatim>\<open>.php\<close>. So the install step of the
  \<open>i\<close>-th slug stands at index \<open>2 + i\<close>, before its activation step at index
  \<open>4 + n + i\<close>, \<open>n\<close> being the number of slugs.
\<close>

theorem additional_plugins_install_then_activate:
  assumes "opt_additionalPlugins options = Some slugs"
  shows "\<exists>ss rest. steps (generateWooCommerceBlueprint options) = Some ss
     \<and> ss =
        [InstallPlugin
           (Some (PluginResource ''wordpress.org/plugins'' (Some ''woocommerce'') None None)) None None,
         InstallPlugin
           (Some (PluginResource ''wordpress.org/plugins'' (Some ''query-monitor'') None None)) None None]
        @ map (\<lambda>p. InstallPlugin
                 (Some (PluginResource ''wordpress.org/plugins'' (Some p) None None)) None None) slugs
        @ [ActivatePlugin ''woocommerce/woocommerce.php'' None,
           ActivatePlugin ''query-monitor/query-monitor.php'' None]
        @ map (\<lambda>p. ActivatePlugin (p @ ''/'' @ p @ ''.php'') None) slugs
        @ rest
     \<and> (\<forall>i < length slugs.
          ss ! (2 + i) = InstallPlugin
            (Some (PluginResource ''wordpress.org/plugins'' (Some (slugs ! i)) None None)) None None
        \<and> ss ! (4 + length slugs + i) = ActivatePlugin (slugs ! i @ ''/'' @ slugs ! i @ ''.php'') None
        \<and> 2 + i < 4 + length slugs + i
        \<and> 4 + length slugs + i < length ss)"
  using assms
  by (simp add: generateWooCommerceBlueprint_def default_to_def Let_def nth_append)

theorem additional_plugins_install_then_activate_witness:
  "opt_additionalPlugins (no_options\<lparr> opt_additionalPlugins := Some [''akismet'', ''jetpack''] \<rparr>)
     = Some [''akismet'', ''jetpack'']
   \<and> (\<exists>ss. steps (generateWooCommerceBlueprint
          (no_options\<lparr> opt_additionalPlugins := Some [''akismet'', ''jetpack''] \<rparr>)) = Some ss
        \<and> ss ! 2 = InstallPlugin
            (Some (PluginResource ''wordpress.org/plugins'' (Some ''akismet'') None None)) None None
        \<and> ss ! 3 = InstallPlugin
            (Some (PluginResource ''wordpress.org/plugins'' (Some ''jetpack'') None None)) None None
        \<and> ss ! 6 = ActivatePlugin ''akismet/akismet.php'' None
        \<and> ss ! 7 = ActivatePlugin ''jetpack/jetpack.php'' None)"
proof -
  let ?options = "no_options\<lparr> opt_additionalPlugins := Some [''akismet'', ''jetpack''] \<rparr>"
  have h: "opt_additionalPlugins ?options = Some [''akismet'', ''jetpack'']" by simp
  from additional_plugins_install_then_activate [OF h]
  obtain ss where ss: "steps (generateWooCommerceBlueprint ?options) = Some ss"
    and idx: "\<forall>i < length [''akismet'', ''jetpack''].
          ss ! (2 + i) = InstallPlugin
            (Some (PluginResource ''wordpress.org/plugins'' (Some ([''akismet'', ''jetpack''] ! i)) None None)) None None
        \<and> ss ! (4 + length [''akismet'', ''jetpack''] + i)
            = ActivatePlugin ([''akismet'', ''jetpack''] ! i @ ''/'' @ [''akismet'', ''jetpack''] ! i @ ''.php'') None"
    by blast
  from idx [rule_format, of 0] idx [rule_format, of 1] ss h show ?thesis by simp
qed

subsection \<open>Paths, run codes and the import-helper block\<close>

lemma endsWith_paths:
  "\<not> endsWith ''/wp-content/mu-plugins/rewrite.php'' ''import-products.php''"
  "\<not> endsWith ''/wp-content/mu-plugins/debug-config.php'' ''import-products.php''"
  "\<not> endsWith ''/wp-content/mu-plugins/playground-helpers.php'' ''import-products.php''"
  "endsWith ''/wp-content/mu-plugins/import-products.php'' ''import-products.php''"
  by (simp_all add: endsWith_def)

lemma endsWith_paths_part_002:
  "\<not> endsWith ''/wordpress/wp-content/mu-plugins/rewrite.php'' ''import-products.php''"
  "\<not> endsWith ''/wordpress/wp-content/mu-plugins/debug-config.php'' ''import-products.php''"
  "\<not> endsWith ''/wordpress/wp-content/mu-plugins/playground-helpers.php'' ''import-products.php''"
  "endsWith ''/wordpress/wp-content/mu-plugins/import-products.php'' ''import-products.php''"
  by (simp_all add: endsWith_def)

text \<open>
  Two texts differ when some prefix of one differs from the prefix of the same length of
  the other; for the long literals the first one or two lines decide.
\<close>

lemma differs_by_prefix:
  "n \<le> length a \<Longrightarrow> n \<le> length b \<Longrightarrow> take n a \<noteq> take n b \<Longrightarrow> a @ x \<noteq> b @ y"
proof
  assume n: "n \<le> length a" "n \<le> length b" and d: "take n a \<noteq> take n b" and e: "a @ x = b @ y"
  from e have "take n (a @ x) = take n (b @ y)" by simp
  with n have "take n a = take n b" by simp
  with d show False by simp
qed

lemma literal_differs_by_prefix:
  "n \<le> length a \<Longrightarrow> n \<le> length b \<Longrightarrow> take n a \<noteq> take n b \<Longrightarrow> a \<noteq> b @ y"
  using differs_by_prefix [of n a b "[]" y] by simp

lemma require_not_sample:
  "''<?php require_once(ABSPATH . 'wp-content/mu-plugins/import-products.php'); ?>''
     \<noteq> sample_products_php"
  "''<?php require_once(ABSPATH . 'wp-content/mu-plugins/import-products.php'); ?>''
     \<noteq> sample_products_php_part_002"
  "''<?php require_once('/wordpress/wp-content/mu-plugins/import-products.php'); ?>''
     \<noteq> sample_products_php"
  "''<?php require_once('/wordpress/wp-content/mu-plugins/import-products.php'); ?>''
     \<noteq> sample_products_php_part_002"
  unfolding sample_products_php_def sample_products_php_part_002_def
  by (rule literal_differs_by_prefix [where n = 6]; simp)+

lemma unlink_not_sample:
  "''<?php unlink(ABSPATH . 'wp-content/mu-plugins/import-products.php'); ?>''
     \<noteq> sample_products_php"
  "''<?php unlink(ABSPATH . 'wp-content/mu-plugins/import-products.php'); ?>''
     \<noteq> sample_products_php_part_002"
  "''<?php unlink('/wordpress/wp-content/mu-plugins/import-products.php'); ?>''
     \<noteq> sample_products_php"
  "''<?php unlink('/wordpress/wp-content/mu-plugins/import-products.php'); ?>''
     \<noteq> sample_products_php_part_002"
  unfolding sample_products_php_def sample_products_php_part_002_def
  by (rule literal_differs_by_prefix [where n = 6]; simp)+

lemma checks_not_sample:
  "core_check_php \<noteq> sample_products_php"
  "core_check_php \<noteq> sample_products_php_part_002"
  "wc_tables_php \<noteq> sample_products_php"
  "wc_tables_php \<noteq> sample_products_php_part_002"
  unfolding sample_products_php_def sample_products_php_part_002_def core_check_php_def
    wc_tables_php_def same_append_eq
  by (rule differs_by_prefix [where n = 10]; simp)+

lemma run_codes_not_sample:
  "\<not> default_sample_data_step
     (RunPHP ''<?php require_once(ABSPATH . 'wp-content/mu-plugins/import-products.php'); ?>'')"
  "\<not> default_sample_data_step
     (RunPHP ''<?php unlink(ABSPATH . 'wp-content/mu-plugins/import-products.php'); ?>'')"
  "default_sample_data_step (RunPHP sample_products_php)"
  by (simp_all add: require_not_sample unlink_not_sample)

lemma run_codes_not_sample_part_002:
  "\<not> default_sample_data_step
     (RunPHP ''<?php require_once('/wordpress/wp-content/mu-plugins/import-products.php'); ?>'')"
  "\<not> default_sample_data_step
     (RunPHP ''<?php unlink('/wordpress/wp-content/mu-plugins/import-products.php'); ?>'')"
  "\<not> default_sample_data_step (RunPHP core_check_php)"
  "\<not> default_sample_data_step (RunPHP wc_tables_php)"
  "default_sample_data_step (RunPHP sample_products_php_part_002)"
  by (simp_all add: require_not_sample unlink_not_sample checks_not_sample)

lemma has_import_block_needs_write:
  "has_import_block run remove ss \<Longrightarrow> \<exists>s \<in> set ss. writes_import_helper s"
proof (induction ss)
  case Nil
  then show ?case by simp
next
  case (Cons s ss)
  show ?case
  proof (cases "import_block_here run remove (s # ss)")
    case True
    then have "writes_import_helper s"
      by (induction run remove "s # ss" rule: import_block_here.induct) auto
    then show ?thesis by simp
  next
    case False
    with Cons show ?thesis by auto
  qed
qed

lemma import_block_here_write:
  "import_block_here run remove (s # ss) \<Longrightarrow> writes_import_helper s"
  by (induction run remove "s # ss" rule: import_block_here.induct) auto

lemma has_import_block_skip:
  "\<forall>x \<in> set xs. \<not> writes_import_helper x \<Longrightarrow>
   has_import_block run remove (xs @ ys) = has_import_block run remove ys"
proof (induction xs)
  case Nil
  show ?case by simp
next
  case (Cons x xs)
  then have "\<not> import_block_here run remove (x # xs @ ys)"
    using import_block_here_write [of run remove x "xs @ ys"] by auto
  with Cons show ?case by simp
qed

lemma import_block_here_then_write:
  "zs \<noteq> [] \<Longrightarrow>
   import_block_here run remove (zs @ [WriteFile p d]) = import_block_here run remove zs"
  by (induction run remove zs rule: import_block_here.induct) simp_all

lemma has_import_block_then_write:
  "has_import_block run remove (ys @ [WriteFile p d]) = has_import_block run remove ys"
proof (induction ys)
  case Nil
  show ?case by simp
next
  case (Cons y ys)
  have "import_block_here run remove ((y # ys) @ [WriteFile p d])
      = import_block_here run remove (y # ys)"
    by (rule import_block_here_then_write) simp
  with Cons show ?case by simp
qed

lemma has_import_block_append:
  "has_import_block run remove ys \<Longrightarrow> has_import_block run remove (xs @ ys)"
  by (induction xs) auto

lemma has_import_block_intro:
  "endsWith path ''import-products.php'' \<Longrightarrow>
   has_import_block run remove (xs @ WriteFile path d # RunPHP run # RunPHP remove # rest)"
  by (rule has_import_block_append) simp

text \<open>
  The shape of every generated step sequence: the setup steps, then the product branch,
  then the caller's additional steps, then the helper file. No setup step writes the
  import helper or imports sample data.
\<close>

lemma generate_steps_shape:
  "\<exists>pre. steps (generateWooCommerceBlueprint options) = Some
       (pre
        @ (if default_to [] (opt_products options) \<noteq> []
           then [WriteFile ''/wp-content/mu-plugins/import-products.php''
                   (DataString (generateProductImportScript (default_to [] (opt_products options)))),
                 RunPHP require_import_helper,
                 RunPHP unlink_import_helper]
           else [RunPHP sample_products_php])
        @ default_to [] (opt_additionalSteps options)
        @ [WriteFile ''/wp-content/mu-plugins/playground-helpers.php''
             (DataString playground_helpers_php)])
     \<and> (\<forall>s \<in> set pre. \<not> writes_import_helper s \<and> \<not> default_sample_data_step s)"
proof -
  let ?plugins = "default_to [] (opt_additionalPlugins options)"
  let ?pre =
    "[InstallPlugin
        (Some (PluginResource ''wordpress.org/plugins'' (Some ''woocommerce'') None None)) None None,
      InstallPlugin
        (Some (PluginResource ''wordpress.org/plugins'' (Some ''query-monitor'') None None)) None None]
     @ map (\<lambda>p. InstallPlugin
              (Some (PluginResource ''wordpress.org/plugins'' (Some p) None None)) None None) ?plugins
     @ [ActivatePlugin ''woocommerce/woocommerce.php'' None,
        ActivatePlugin ''query-monitor/query-monitor.php'' None]
     @ map (\<lambda>p. ActivatePlugin (p @ ''/'' @ p @ ''.php'') None) ?plugins
     @ [Mkdir ''/wp-content/mu-plugins'',
        WriteFile ''/wp-content/mu-plugins/rewrite.php'' (DataString rewrite_php),
        site_options_step (default_to ''My WooCommerce Store'' (opt_siteName options)),
        WriteFile ''/wp-content/mu-plugins/debug-config.php'' (DataString debug_config_php)]"
  have clean: "\<forall>s \<in> set ?pre. \<not> writes_import_helper s \<and> \<not> default_sample_data_step s"
    by (auto simp: endsWith_paths site_options_step_def)
  have "steps (generateWooCommerceBlueprint options) = Some
       (?pre
        @ (if default_to [] (opt_products options) \<noteq> []
           then [WriteFile ''/wp-content/mu-plugins/import-products.php''
                   (DataString (generateProductImportScript (default_to [] (opt_products options)))),
                 RunPHP require_import_helper,
                 RunPHP unlink_import_helper]
           else [RunPHP sample_products_php])
        @ default_to [] (opt_additionalSteps options)
        @ [WriteFile ''/wp-content/mu-plugins/playground-helpers.php''
             (DataString playground_helpers_php)])"
    by (simp add: generateWooCommerceBlueprint_def Let_def require_import_helper_def
        unlink_import_helper_def)
  with clean show ?thesis by blast
qed

text \<open>
  The caller's additional steps are appended as they are. With a product to import and
  an \<^verbatim>\<open>importWxr\<close> step of the sample data among the additional steps, the returned
  sequence holds the import block and a default-sample-data step at once.
\<close>

theorem import_block_xor_sample_data_cex:
  "default_to [] (opt_products
      (no_options\<lparr> opt_products := Some [test_product],
                   opt_additionalSteps := Some [ImportWxr (FileResource ''url''
                     (Some ''https://raw.githubusercontent.com/woocommerce/woocommerce/trunk/plugins/woocommerce/sample-data/sample_products.xml'')
                     None)] \<rparr>)) \<noteq> []
   \<and> (case steps (generateWooCommerceBlueprint
         (no_options\<lparr> opt_products := Some [test_product],
                   opt_additionalSteps := Some [ImportWxr (FileResource ''url''
                     (Some ''https://raw.githubusercontent.com/woocommerce/woocommerce/trunk/plugins/woocommerce/sample-data/sample_products.xml'')
                     None)] \<rparr>)) of
        None \<Rightarrow> False
      | Some ss \<Rightarrow> has_import_block require_import_helper unlink_import_helper ss
                  \<and> list_ex default_sample_data_step ss)"
  by (simp add: generateWooCommerceBlueprint_def no_options_def default_to_def Let_def
      endsWith_paths require_import_helper_def unlink_import_helper_def
      site_options_step_def)

text \<open>
  Claim C4, as the code has it. For every option set, the returned step sequence holds
  the import-helper block if and only if the products are a non-empty list, and holds a
  default-sample-data step if and only if the products are empty or absent, exactly when
  the caller's additional steps do not bring the other kind themselves: no
  default-sample-data step among them when there are products, no import-helper block
  among them when there are none. Whatever else the additional steps hold does not
  matter.
\<close>

theorem import_block_xor_sample_data:
  "\<exists>ss. steps (generateWooCommerceBlueprint options) = Some ss
     \<and> (((has_import_block require_import_helper unlink_import_helper ss
            \<longleftrightarrow> default_to [] (opt_products options) \<noteq> [])
         \<and> (list_ex default_sample_data_step ss
            \<longleftrightarrow> default_to [] (opt_products options) = []))
        \<longleftrightarrow> (if default_to [] (opt_products options) \<noteq> []
             then \<not> list_ex default_sample_data_step (default_to [] (opt_additionalSteps options))
             else \<not> has_import_block require_import_helper unlink_import_helper
                      (default_to [] (opt_additionalSteps options))))"
proof -
  let ?helper = "WriteFile ''/wp-content/mu-plugins/playground-helpers.php''
             (DataString playground_helpers_php)"
  let ?extra = "default_to [] (opt_additionalSteps options)"
  obtain pre where
    ss: "steps (generateWooCommerceBlueprint options) = Some
       (pre
        @ (if default_to [] (opt_products options) \<noteq> []
           then [WriteFile ''/wp-content/mu-plugins/import-products.php''
                   (DataString (generateProductImportScript (default_to [] (opt_products options)))),
                 RunPHP require_import_helper,
                 RunPHP unlink_import_helper]
           else [RunPHP sample_products_php])
        @ ?extra @ [?helper])"
    and pre: "\<forall>s \<in> set pre. \<not> writes_import_helper s \<and> \<not> default_sample_data_step s"
    using generate_steps_shape [of options] by blast
  have helper: "\<not> default_sample_data_step ?helper"
    by simp
  show ?thesis
  proof (cases "default_to [] (opt_products options) = []")
    case True
    let ?ss = "pre @ [RunPHP sample_products_php] @ ?extra @ [?helper]"
    have "\<forall>x \<in> set (pre @ [RunPHP sample_products_php]). \<not> writes_import_helper x"
      using pre by simp
    then have "has_import_block require_import_helper unlink_import_helper
        ((pre @ [RunPHP sample_products_php]) @ (?extra @ [?helper]))
      = has_import_block require_import_helper unlink_import_helper (?extra @ [?helper])"
      by (rule has_import_block_skip)
    then have "has_import_block require_import_helper unlink_import_helper ?ss
      = has_import_block require_import_helper unlink_import_helper ?extra"
      by (simp add: has_import_block_then_write)
    moreover have "list_ex default_sample_data_step ?ss"
      by (simp add: list_ex_iff run_codes_not_sample)
    ultimately show ?thesis using True ss by simp
  next
    case False
    let ?block = "[WriteFile ''/wp-content/mu-plugins/import-products.php''
                   (DataString (generateProductImportScript (default_to [] (opt_products options)))),
                 RunPHP require_import_helper,
                 RunPHP unlink_import_helper]"
    let ?ss = "pre @ ?block @ ?extra @ [?helper]"
    have "has_import_block require_import_helper unlink_import_helper ?ss"
      using has_import_block_intro [OF endsWith_paths(4), of require_import_helper
          unlink_import_helper pre _ "?extra @ [?helper]"]
      by simp
    moreover have "list_ex default_sample_data_step ?ss = list_ex default_sample_data_step ?extra"
      using pre helper run_codes_not_sample
      by (auto simp: list_ex_iff require_import_helper_def unlink_import_helper_def)
    ultimately show ?thesis using False ss by simp
  qed
qed

theorem import_block_xor_sample_data_witness:
  "(\<exists>ss. steps (generateWooCommerceBlueprint
       (no_options\<lparr> opt_products := Some [test_product],
                    opt_additionalSteps := Some
                      [WriteFile ''/tmp/import-products.php'' (DataString []), Login None None] \<rparr>))
         = Some ss
        \<and> has_import_block require_import_helper unlink_import_helper ss
        \<and> \<not> list_ex default_sample_data_step ss)
   \<and> (\<exists>ss. steps (generateWooCommerceBlueprint
       (no_options\<lparr> opt_additionalSteps := Some
                      [WriteFile ''/tmp/import-products.php'' (DataString []),
                       ImportWxr (FileResource ''url'' (Some ''https://example.com/posts.xml'') None)] \<rparr>))
         = Some ss
        \<and> \<not> has_import_block require_import_helper unlink_import_helper ss
        \<and> list_ex default_sample_data_step ss)"
proof -
  let ?a = "no_options\<lparr> opt_products := Some [test_product],
                    opt_additionalSteps := Some
                      [WriteFile ''/tmp/import-products.php'' (DataString []), Login None None] \<rparr>"
  let ?b = "no_options\<lparr> opt_additionalSteps := Some
                      [WriteFile ''/tmp/import-products.php'' (DataString []),
                       ImportWxr (FileResource ''url'' (Some ''https://example.com/posts.xml'') None)] \<rparr>"
  have a: "default_to [] (opt_products ?a) \<noteq> []"
    "\<not> list_ex default_sample_data_step (default_to [] (opt_additionalSteps ?a))"
    by (simp_all add: no_options_def default_to_def)
  have b: "default_to [] (opt_products ?b) = []"
    "\<not> has_import_block require_import_helper unlink_import_helper
        (default_to [] (opt_additionalSteps ?b))"
    by (simp_all add: no_options_def default_to_def)
  from import_block_xor_sample_data [of ?a] a
  have 1: "\<exists>ss. steps (generateWooCommerceBlueprint ?a) = Some ss
        \<and> has_import_block require_import_helper unlink_import_helper ss
        \<and> \<not> list_ex default_sample_data_step ss"
    by auto
  from import_block_xor_sample_data [of ?b] b
  have 2: "\<exists>ss. steps (generateWooCommerceBlueprint ?b) = Some ss
        \<and> \<not> has_import_block require_import_helper unlink_import_helper ss
        \<and> list_ex default_sample_data_step ss"
    by auto
  from 1 2 show ?thesis by blast
qed

text \<open>The whole step sequence for \<^verbatim>\<open>{products}\<close> with a non-empty list.\<close>

lemma generate_steps_products:
  assumes "products \<noteq> []"
  shows "steps (generateWooCommerceBlueprint (no_options\<lparr> opt_products := Some products \<rparr>)) = Some
    [InstallPlugin
       (Some (PluginResource ''wordpress.org/plugins'' (Some ''woocommerce'') None None)) None None,
     InstallPlugin
       (Some (PluginResource ''wordpress.org/plugins'' (Some ''query-monitor'') None None)) None None,
     ActivatePlugin ''woocommerce/woocommerce.php'' None,
     ActivatePlugin ''query-monitor/query-monitor.php'' None,
     Mkdir ''/wp-content/mu-plugins'',
     WriteFile ''/wp-content/mu-plugins/rewrite.php'' (DataString rewrite_php),
     site_options_step ''My WooCommerce Store'',
     WriteFile ''/wp-content/mu-plugins/debug-config.php'' (DataString debug_config_php),
     WriteFile ''/wp-content/mu-plugins/import-products.php''
       (DataString (generateProductImportScript products)),
     RunPHP ''<?php require_once(ABSPATH . 'wp-content/mu-plugins/import-products.php'); ?>'',
     RunPHP ''<?php unlink(ABSPATH . 'wp-content/mu-plugins/import-products.php'); ?>'',
     WriteFile ''/wp-content/mu-plugins/playground-helpers.php''
       (DataString playground_helpers_php)]"
  using assms
  by (simp add: generateWooCommerceBlueprint_def no_options_def default_to_def Let_def)

text \<open>
  Claim C5. For every non-empty products list, the step sequence generated from
  \<^verbatim>\<open>{products}\<close> holds no default-sample-data step (none of tag \<^verbatim>\<open>importWxr\<close>
  either) and exactly one file-write step whose path ends in \<^verbatim>\<open>import-products.php\<close>.
  That step carries the generated import script; it is directly followed by the run step
  that requires the file and then by the run step that unlinks the same file.
\<close>

theorem products_import_block:
  assumes "products \<noteq> []"
  shows "\<exists>ss ref. steps (generateWooCommerceBlueprint (no_options\<lparr> opt_products := Some products \<rparr>)) = Some ss
     \<and> \<not> list_ex default_sample_data_step ss
     \<and> length ss = 12
     \<and> filter writes_import_helper ss = [ss ! 8]
     \<and> ss ! 8 = WriteFile ''/wp-content/mu-plugins/import-products.php''
                  (DataString (generateProductImportScript products))
     \<and> ss ! 9 = RunPHP (''<?php require_once('' @ ref @ ''); ?>'')
     \<and> ss ! 10 = RunPHP (''<?php unlink('' @ ref @ ''); ?>'')
     \<and> ref = ''ABSPATH . 'wp-content/mu-plugins/import-products.php'' @ [quote]
     \<and> has_import_block require_import_helper unlink_import_helper ss"
  unfolding generate_steps_products [OF assms]
  by (simp add: endsWith_paths require_not_sample unlink_not_sample
      site_options_step_def require_import_helper_def unlink_import_helper_def)

theorem products_import_block_witness:
  "[test_product] \<noteq> []
   \<and> (\<exists>ss. steps (generateWooCommerceBlueprint (no_options\<lparr> opt_products := Some [test_product] \<rparr>)) = Some ss
     \<and> length ss = 12
     \<and> filter writes_import_helper ss = [ss ! 8]
     \<and> ss ! 8 = WriteFile ''/wp-content/mu-plugins/import-products.php''
                  (DataString (generateProductImportScript [test_product])))"
  using products_import_block [of "[test_product]"] by auto

section \<open>The same properties of the generator of \<^verbatim>\<open>src/unnamed/part_002\<close>\<close>

lemma generate_constant_fields_part_002:
  "login (generateWooCommerceBlueprint_part_002 options) = Some (LoginBool True)
   \<and> phpExtensionBundles (generateWooCommerceBlueprint_part_002 options) = Some [''kitchen-sink'']
   \<and> features (generateWooCommerceBlueprint_part_002 options) = Some \<lparr> networking = Some True \<rparr>"
  by (simp add: generateWooCommerceBlueprint_part_002_def Let_def)

lemma additional_plugins_part_002:
  assumes "opt_additionalPlugins options = Some slugs"
  shows "\<exists>rest. steps (generateWooCommerceBlueprint_part_002 options) = Some
       ([RunPHP core_check_php,
         InstallPlugin None
           (Some (PluginResource ''wordpress.org/plugins'' (Some ''woocommerce'') None None)) None]
        @ map (\<lambda>p. InstallPlugin None
                 (Some (PluginResource ''wordpress.org/plugins'' (Some p) None None)) None) slugs
        @ [ActivatePlugin ''woocommerce/woocommerce.php'' None]
        @ map (\<lambda>p. ActivatePlugin (p @ ''/'' @ p @ ''.php'') None) slugs
        @ rest)"
  using assms
  by (simp add: generateWooCommerceBlueprint_part_002_def default_to_def Let_def)

lemma generate_steps_shape_part_002:
  "\<exists>pre. steps (generateWooCommerceBlueprint_part_002 options) = Some
       (pre
        @ (if default_to [] (opt_products options) \<noteq> []
           then [WriteFile ''/wordpress/wp-content/mu-plugins/import-products.php''
                   (DataString (generateProductImportScript_part_002
                      (default_to [] (opt_products options)))),
                 RunPHP require_import_helper_part_002,
                 RunPHP unlink_import_helper_part_002]
           else [RunPHP sample_products_php_part_002])
        @ default_to [] (opt_additionalSteps options)
        @ [WriteFile ''/wordpress/wp-content/mu-plugins/playground-helpers.php''
             (DataString playground_helpers_php)])
     \<and> (\<forall>s \<in> set pre. \<not> writes_import_helper s \<and> \<not> default_sample_data_step s)"
proof -
  let ?plugins = "default_to [] (opt_additionalPlugins options)"
  let ?pre =
    "[RunPHP core_check_php,
      InstallPlugin None
        (Some (PluginResource ''wordpress.org/plugins'' (Some ''woocommerce'') None None)) None]
     @ map (\<lambda>p. InstallPlugin None
              (Some (PluginResource ''wordpress.org/plugins'' (Some p) None None)) None) ?plugins
     @ [ActivatePlugin ''woocommerce/woocommerce.php'' None]
     @ map (\<lambda>p. ActivatePlugin (p @ ''/'' @ p @ ''.php'') None) ?plugins
     @ [Mkdir ''/wordpress/wp-content/mu-plugins'',
        WriteFile ''/wordpress/wp-content/mu-plugins/rewrite.php'' (DataString rewrite_php),
        site_options_step (default_to ''My WooCommerce Store'' (opt_siteName options)),
        WriteFile ''/wordpress/wp-content/mu-plugins/debug-config.php'' (DataString debug_config_php),
        RunPHP wc_tables_php]"
  have clean: "\<forall>s \<in> set ?pre. \<not> writes_import_helper s \<and> \<not> default_sample_data_step s"
    using run_codes_not_sample_part_002(3,4)
    by (auto simp: endsWith_paths_part_002 site_options_step_def)
  have "steps (generateWooCommerceBlueprint_part_002 options) = Some
       (?pre
        @ (if default_to [] (opt_products options) \<noteq> []
           then [WriteFile ''/wordpress/wp-content/mu-plugins/import-products.php''
                   (DataString (generateProductImportScript_part_002
                      (default_to [] (opt_products options)))),
                 RunPHP require_import_helper_part_002,
                 RunPHP unlink_import_helper_part_002]
           else [RunPHP sample_products_php_part_002])
        @ default_to [] (opt_additionalSteps options)
        @ [WriteFile ''/wordpress/wp-content/mu-plugins/playground-helpers.php''
             (DataString playground_helpers_php)])"
    by (simp add: generateWooCommerceBlueprint_part_002_def Let_def
        require_import_helper_part_002_def unlink_import_helper_part_002_def)
  with clean show ?thesis by blast
qed

lemma import_block_xor_sample_data_part_002:
  "\<exists>ss. steps (generateWooCommerceBlueprint_part_002 options) = Some ss
     \<and> (((has_import_block require_import_helper_part_002 unlink_import_helper_part_002 ss
            \<longleftrightarrow> default_to [] (opt_products options) \<noteq> [])
         \<and> (list_ex default_sample_data_step ss
            \<longleftrightarrow> default_to [] (opt_products options) = []))
        \<longleftrightarrow> (if default_to [] (opt_products options) \<noteq> []
             then \<not> list_ex default_sample_data_step (default_to [] (opt_additionalSteps options))
             else \<not> has_import_block require_import_helper_part_002 unlink_import_helper_part_002
                      (default_to [] (opt_additionalSteps options))))"
proof -
  let ?helper = "WriteFile ''/wordpress/wp-content/mu-plugins/playground-helpers.php''
             (DataString playground_helpers_php)"
  let ?extra = "default_to [] (opt_additionalSteps options)"
  obtain pre where
    ss: "steps (generateWooCommerceBlueprint_part_002 options) = Some
       (pre
        @ (if default_to [] (opt_products options) \<noteq> []
           then [WriteFile ''/wordpress/wp-content/mu-plugins/import-products.php''
                   (DataString (generateProductImportScript_part_002 (default_to [] (opt_products options)))),
                 RunPHP require_import_helper_part_002,
                 RunPHP unlink_import_helper_part_002]
           else [RunPHP sample_products_php_part_002])
        @ ?extra @ [?helper])"
    and pre: "\<forall>s \<in> set pre. \<not> writes_import_helper s \<and> \<not> default_sample_data_step s"
    using generate_steps_shape_part_002 [of options] by blast
  have helper: "\<not> default_sample_data_step ?helper"
    by simp
  show ?thesis
  proof (cases "default_to [] (opt_products options) = []")
    case True
    let ?ss = "pre @ [RunPHP sample_products_php_part_002] @ ?extra @ [?helper]"
    have "\<forall>x \<in> set (pre @ [RunPHP sample_products_php_part_002]). \<not> writes_import_helper x"
      using pre by simp
    then have "has_import_block require_import_helper_part_002 unlink_import_helper_part_002
        ((pre @ [RunPHP sample_products_php_part_002]) @ (?extra @ [?helper]))
      = has_import_block require_import_helper_part_002 unlink_import_helper_part_002 (?extra @ [?helper])"
      by (rule has_import_block_skip)
    then have "has_import_block require_import_helper_part_002 unlink_import_helper_part_002 ?ss
      = has_import_block require_import_helper_part_002 unlink_import_helper_part_002 ?extra"
      by (simp add: has_import_block_then_write)
    moreover have "list_ex default_sample_data_step ?ss"
      by (simp add: list_ex_iff run_codes_not_sample_part_002)
    ultimately show ?thesis using True ss by simp
  next
    case False
    let ?block = "[WriteFile ''/wordpress/wp-content/mu-plugins/import-products.php''
                   (DataString (generateProductImportScript_part_002 (default_to [] (opt_products options)))),
                 RunPHP require_import_helper_part_002,
                 RunPHP unlink_import_helper_part_002]"
    let ?ss = "pre @ ?block @ ?extra @ [?helper]"
    have "has_import_block require_import_helper_part_002 unlink_import_helper_part_002 ?ss"
      using has_import_block_intro [OF endsWith_paths_part_002(4), of require_import_helper_part_002
          unlink_import_helper_part_002 pre _ "?extra @ [?helper]"]
      by simp
    moreover have "list_ex default_sample_data_step ?ss = list_ex default_sample_data_step ?extra"
      using pre helper run_codes_not_sample_part_002
      by (auto simp: list_ex_iff require_import_helper_part_002_def unlink_import_helper_part_002_def)
    ultimately show ?thesis using False ss by simp
  qed
qed

lemma products_import_block_part_002:
  assumes "products \<noteq> []"
  shows "\<exists>ss. steps (generateWooCommerceBlueprint_part_002
            (no_options\<lparr> opt_products := Some products \<rparr>)) = Some ss
     \<and> \<not> list_ex default_sample_data_step ss
     \<and> length ss = 12
     \<and> filter writes_import_helper ss = [ss ! 8]
     \<and> ss ! 8 = WriteFile ''/wordpress/wp-content/mu-plugins/import-products.php''
                  (DataString (generateProductImportScript_part_002 products))
     \<and> ss ! 9 = RunPHP ''<?php require_once('/wordpress/wp-content/mu-plugins/import-products.php'); ?>''
     \<and> ss ! 10 = RunPHP ''<?php unlink('/wordpress/wp-content/mu-plugins/import-products.php'); ?>''"
  using assms
  by (simp add: generateWooCommerceBlueprint_part_002_def no_options_def default_to_def Let_def
      endsWith_paths_part_002 require_not_sample unlink_not_sample checks_not_sample
      site_options_step_def)


end
